theory Spec2Isabelle
  imports Complex_Main "HOL-Library.Word"
begin

unbundle bit_operations_syntax

section \<open>Values shared by the SMURF routines\<close>

text \<open>
  A C \<^verbatim>\<open>double\<close> is modelled by a real number. The routines verified here compare
  doubles with the bad-value sentinel and with \<^verbatim>\<open>0.0\<close>, subtract one from another
  (\<^verbatim>\<open>res_data[ii] -= m\<close>) and multiply one by a count; the model does so exactly.
  Rounding, infinities and NaN are outside the model.
\<close>

text \<open>
  Modelled from the spec: the headers \<^verbatim>\<open>prm_par.h\<close> and \<^verbatim>\<open>sae_par.h\<close>, which declare these
  four constants, are not among the sources. The spec speaks of an "undefined" sentinel
  for map values, of an "unmapped" sentinel for LUT entries, and of an error status. The
  numbers are the ones the Starlink headers give (\<^verbatim>\<open>-DBL_MAX\<close>, \<^verbatim>\<open>INT_MIN\<close>, 0 and the SAI
  facility's error code).
\<close>

definition VAL__BADD :: real where
  "VAL__BADD = - (2 ^ 1024 - 2 ^ 971)"

definition VAL__BADI :: int where
  "VAL__BADI = - (2 ^ 31)"

definition SAI__OK :: int where
  "SAI__OK = 0"

definition SAI__ERROR :: int where
  "SAI__ERROR = 148013867"

section \<open>smf_calcmodel_ast: the astronomical-signal component\<close>

subsection \<open>Data\<close>

text \<open>
  The bit masks of \<^verbatim>\<open>smf_typ.h\<close> (not among the sources) are parameters of the model.
  The quality type \<^verbatim>\<open>smf_qual_t\<close> is an unsigned integer type of some width: the
  records are polymorphic in it and the functions use them at \<open>'q word\<close>.
\<close>

record 'qual smf_typ =
  SMF__Q_BADB :: 'qual
  SMF__Q_MOD :: 'qual
  SMF__MAPQ_ZERO :: 'qual
  SMF__DIMM_FIRSTITER :: int
  SMF__DIMM_LASTITER :: int

text \<open>What \<^verbatim>\<open>smf_get_dims\<close> stores into the local variables of the routine.\<close>

record smf_dims =
  nbolo :: nat
  ntslice :: nat
  bstride :: nat
  tstride :: nat

text \<open>
  One subarray of the chunk: \<^verbatim>\<open>(res->sdata[idx]->pntr)[0]\<close>, \<^verbatim>\<open>(lut->sdata[idx]->pntr)[0]\<close>
  and \<^verbatim>\<open>(qua->sdata[idx]->pntr)[0]\<close> (\<open>None\<close> is the NULL pointer), with the dimensions
  and strides that \<^verbatim>\<open>smf_get_dims\<close> reports for \<^verbatim>\<open>res->sdata[idx]\<close>. The arrays are taken in
  the order in which \<^verbatim>\<open>smf_model_dataOrder\<close> leaves them.
\<close>

record 'qual smfData =
  res_data :: "real list option"
  lut_data :: "int list option"
  qua_data :: "'qual list option"
  dims :: smf_dims

text \<open>
  The part of \<^verbatim>\<open>smfDIMMData\<close> that the routine reads or writes, for the given chunk.
  The field \<open>map_arr\<close> is \<^verbatim>\<open>dat->map\<close>.
\<close>

record 'qual smfDIMMData =
  sdata :: "'qual smfData list"
  noi :: bool
  map_arr :: "real list"
  mapqual :: "'qual list"
  mapvar :: "real list"
  msize :: nat

text \<open>The entries of the \<^verbatim>\<open>AST\<close> sub-keymap that the routine reads.\<close>

record ast_keymap =
  GAUSSBG :: real
  MAPSPIKE :: real
  ZERO_NOTLAST :: int

text \<open>
  The library routines called by \<^verbatim>\<open>smf_calcmodel_ast\<close> whose sources are not part of the
  repository are parameters:
  \<^item> \<open>smf_map_spikes\<close>: what the spike detector makes of subarray 0, given the map;
  \<^item> \<open>smf_create_smfData\<close>: the status \<^verbatim>\<open>smf_create_smfData\<close> leaves when it is entered
    with a good status (\<open>SAI__OK\<close> when the wrapper was allocated);
  \<^item> \<open>smf_filter_execute\<close>: the map that creating the Gaussian filter of the given width,
    complementing it and executing it leaves in place of the given one;
  \<^item> \<open>smf_get_mask\<close>: the mask pointer returned for this invocation (\<open>None\<close> is NULL).
  They follow the inherited-status convention that \<^verbatim>\<open>smf_create_smfArray\<close> and
  \<^verbatim>\<open>smf_calc_stats\<close> show: entered with a bad status, a routine returns at once, does
  nothing, and a pointer-valued routine returns NULL. Apart from \<^verbatim>\<open>smf_create_smfData\<close>,
  whose status the source tests, they are taken to succeed.
\<close>

record 'qual ast_helpers =
  smf_map_spikes :: "real list \<Rightarrow> 'qual smfData \<Rightarrow> 'qual smfData"
  smf_create_smfData :: int
  smf_filter_execute :: "real \<Rightarrow> real list \<Rightarrow> real list"
  smf_get_mask :: "8 word list option"

subsection \<open>Removing the map from the residual (lines 335-380)\<close>

text \<open>
  The test \<^verbatim>\<open>zmask && zmask[p]\<close>: whether a mask was returned by \<^verbatim>\<open>smf_get_mask\<close> and marks
  pixel \<open>p\<close>.
\<close>

definition ast_masked :: "8 word list option \<Rightarrow> nat \<Rightarrow> bool" where
  "ast_masked zmask p = (case zmask of None \<Rightarrow> False | Some z \<Rightarrow> z ! p \<noteq> 0)"

text \<open>
  The body of the loop over data points, at array index \<open>ii\<close>. A LUT entry indexes the map
  as it is; the properties below are stated for entries that are the sentinel or lie
  inside the map.
\<close>

definition ast_sample ::
  "('q::len word) smf_typ \<Rightarrow> 8 word list option \<Rightarrow> real list \<Rightarrow> int list \<Rightarrow> 'q word list \<Rightarrow>
   nat \<Rightarrow> real list \<Rightarrow> real list" where
  "ast_sample c zmask mp lut qua ii res =
     (if lut ! ii \<noteq> VAL__BADI then
        (let m = (if ast_masked zmask (nat (lut ! ii)) then VAL__BADD else mp ! nat (lut ! ii))
         in if m \<noteq> VAL__BADD \<and> qua ! ii AND SMF__Q_MOD c = 0
            then res[ii := res ! ii - m]
            else res)
      else res)"

text \<open>The loop over the time slices \<open>j\<close> of bolometer \<open>i\<close>.\<close>

definition ast_tslices ::
  "('q::len word) smf_typ \<Rightarrow> 8 word list option \<Rightarrow> real list \<Rightarrow> int list \<Rightarrow> 'q word list \<Rightarrow>
   smf_dims \<Rightarrow> nat \<Rightarrow> real list \<Rightarrow> real list" where
  "ast_tslices c zmask mp lut qua d i res =
     fold (\<lambda>j r. ast_sample c zmask mp lut qua (i * bstride d + j * tstride d) r)
       [0..<ntslice d] res"

text \<open>The loop over the bolometers \<open>i\<close>, skipping those flagged \<open>SMF__Q_BADB\<close>.\<close>

definition ast_bolos ::
  "('q::len word) smf_typ \<Rightarrow> 8 word list option \<Rightarrow> real list \<Rightarrow> int list \<Rightarrow> 'q word list \<Rightarrow>
   smf_dims \<Rightarrow> real list \<Rightarrow> real list" where
  "ast_bolos c zmask mp lut qua d res =
     fold (\<lambda>i r. if qua ! (i * bstride d) AND SMF__Q_BADB c = 0
                  then ast_tslices c zmask mp lut qua d i r
                  else r)
       [0..<nbolo d] res"

text \<open>
  One pass of the loop over the subarrays. The local variables \<open>nbolo\<close>, \<open>ntslice\<close>,
  \<open>bstride\<close> and \<open>tstride\<close> live across the passes: \<^verbatim>\<open>smf_get_dims\<close> assigns them only when
  the status is good. A NULL pointer sets the status and leaves the subarray alone.
\<close>

definition ast_subarray ::
  "('q::len word) smf_typ \<Rightarrow> 8 word list option \<Rightarrow> real list \<Rightarrow> int \<times> smf_dims \<Rightarrow>
   ('q word) smfData \<Rightarrow> (int \<times> smf_dims) \<times> ('q word) smfData" where
  "ast_subarray c zmask mp sd s =
     (case (res_data s, lut_data s, qua_data s) of
        (Some res, Some lut, Some qua) \<Rightarrow>
          (let d = (if fst sd = SAI__OK then dims s else snd sd)
           in ((fst sd, d), s\<lparr>res_data := Some (ast_bolos c zmask mp lut qua d res)\<rparr>))
      | _ \<Rightarrow> ((SAI__ERROR, snd sd), s))"

fun ast_subarrays ::
  "('q::len word) smf_typ \<Rightarrow> 8 word list option \<Rightarrow> real list \<Rightarrow> int \<times> smf_dims \<Rightarrow>
   ('q word) smfData list \<Rightarrow> (int \<times> smf_dims) \<times> ('q word) smfData list" where
  "ast_subarrays c zmask mp sd [] = (sd, [])"
| "ast_subarrays c zmask mp sd (s # ss) =
     (let (sd1, s1) = ast_subarray c zmask mp sd s;
          (sd2, ss1) = ast_subarrays c zmask mp sd1 ss
      in (sd2, s1 # ss1))"

subsection \<open>The zero mask on the map quality (lines 311-328)\<close>

definition ast_reset_zero :: "('q::len word) smf_typ \<Rightarrow> nat \<Rightarrow> 'q word list \<Rightarrow> 'q word list" where
  "ast_reset_zero c n mq =
     fold (\<lambda>i q. q[i := q ! i AND NOT (SMF__MAPQ_ZERO c)]) [0..<n] mq"

definition ast_flag_zero ::
  "('q::len word) smf_typ \<Rightarrow> nat \<Rightarrow> real list \<Rightarrow> real list \<Rightarrow> 8 word list \<Rightarrow>
   'q word list \<Rightarrow> 'q word list" where
  "ast_flag_zero c n mp mv z mq =
     fold (\<lambda>i q. if mp ! i = VAL__BADD \<or> mv ! i = VAL__BADD \<or> mv ! i \<le> 0
                  then q[i := q ! i OR SMF__MAPQ_ZERO c]
                  else if z ! i \<noteq> 0 then q[i := q ! i OR SMF__MAPQ_ZERO c]
                  else q)
       [0..<n] mq"

definition ast_zero_mask ::
  "('q::len word) smf_typ \<Rightarrow> 8 word list option \<Rightarrow> nat \<Rightarrow> real list \<Rightarrow> real list \<Rightarrow>
   'q word list \<Rightarrow> 'q word list" where
  "ast_zero_mask c zmask n mp mv mq =
     (case zmask of
        None \<Rightarrow> mq
      | Some z \<Rightarrow> ast_flag_zero c n mp mv z (ast_reset_zero c n mq))"

subsection \<open>The Gaussian background filter (lines 259-304)\<close>

text \<open>The loop that sets bad map values to 0 before filtering.\<close>

definition ast_bad_to_zero :: "nat \<Rightarrow> real list \<Rightarrow> real list" where
  "ast_bad_to_zero n mp =
     fold (\<lambda>i m. if m ! i = VAL__BADD then m[i := 0] else m) [0..<n] mp"

text \<open>
  The guard of line 261, on the values the local variables hold there.
\<close>

definition ast_constrain :: "('q::len word) smf_typ \<Rightarrow> real \<Rightarrow> int \<Rightarrow> int \<Rightarrow> bool" where
  "ast_constrain c gaussbg zero_notlast flags =
     (gaussbg \<noteq> 0 \<and> \<not> (zero_notlast \<noteq> 0 \<and> flags AND SMF__DIMM_LASTITER c \<noteq> 0))"

text \<open>
  The filter block: the status after it and the map after it. The wrapper is created
  first; the map is touched only if the status is good after that.
\<close>

definition ast_filter ::
  "('q::len word) smf_typ \<Rightarrow> ('q word) ast_helpers \<Rightarrow> real \<Rightarrow> int \<Rightarrow> int \<Rightarrow> nat \<Rightarrow>
   int \<Rightarrow> real list \<Rightarrow> int \<times> real list" where
  "ast_filter c h gaussbg zero_notlast flags n st mp =
     (if ast_constrain c gaussbg zero_notlast flags then
        (let st1 = (if st = SAI__OK then smf_create_smfData h else st)
         in if st1 = SAI__OK
            then (st1, smf_filter_execute h gaussbg (ast_bad_to_zero n mp))
            else (st1, mp))
      else (st, mp))"

subsection \<open>The routine\<close>

text \<open>
  The status after the parameters are parsed (lines 230-234): a negative \<^verbatim>\<open>AST.GAUSSBG\<close>
  sets \<open>SAI__ERROR\<close>, and the routine goes on.
\<close>

definition ast_parse :: "ast_keymap \<Rightarrow> int \<Rightarrow> int" where
  "ast_parse k st = (if GAUSSBG k < 0 then SAI__ERROR else st)"

text \<open>
  The spike detector (lines 239-254) works on subarray \<open>idx = 0\<close> only. With a bad status
  \<^verbatim>\<open>astMapGet0D\<close> does not assign \<open>mapspike\<close> and \<^verbatim>\<open>smf_map_spikes\<close> does nothing, whatever
  the value of the variable.
\<close>

definition ast_spikes ::
  "('q::len word) smf_typ \<Rightarrow> ('q word) ast_helpers \<Rightarrow> ast_keymap \<Rightarrow> int \<Rightarrow> int \<Rightarrow>
   ('q word) smfDIMMData \<Rightarrow> ('q word) smfData list" where
  "ast_spikes c h k flags st dat =
     (if st = SAI__OK \<and> MAPSPIKE k > 0 \<and> noi dat \<and> flags AND SMF__DIMM_FIRSTITER c = 0
      then (case sdata dat of [] \<Rightarrow> [] | s # ss \<Rightarrow> smf_map_spikes h (map_arr dat) s # ss)
      else sdata dat)"

text \<open>
  \<^verbatim>\<open>smf_calcmodel_ast\<close>: the data and the status it leaves. \<open>zero_notlast\<close> is initialised
  to 0 and \<^verbatim>\<open>astMapGet0I\<close> assigns it only when the status is good; the strides are read only
  inside the loop over bolometers, which is empty while \<open>nbolo\<close> holds its initial 0.
\<close>

definition smf_calcmodel_ast ::
  "('q::len word) smf_typ \<Rightarrow> ('q word) ast_helpers \<Rightarrow> ast_keymap \<Rightarrow> int \<Rightarrow>
   ('q word) smfDIMMData \<times> int \<Rightarrow> ('q word) smfDIMMData \<times> int" where
  "smf_calcmodel_ast c h k flags ds =
     (let dat = fst ds; status = snd ds in
      if status \<noteq> SAI__OK then ds
      else
        (let st1 = ast_parse k status;
             sd1 = ast_spikes c h k flags st1 dat;
             zero_notlast = (if st1 = SAI__OK then ZERO_NOTLAST k else 0);
             (st2, map2) = ast_filter c h (GAUSSBG k) zero_notlast flags (msize dat) st1 (map_arr dat);
             zmask = (if st2 = SAI__OK then smf_get_mask h else None);
             mapqual2 = ast_zero_mask c zmask (msize dat) map2 (mapvar dat) (mapqual dat);
             (sd3, sd2) = ast_subarrays c zmask map2
                            (st2, \<lparr>nbolo = 0, ntslice = 0, bstride = 0, tstride = 0\<rparr>) sd1
         in (dat\<lparr>sdata := sd2, map_arr := map2, mapqual := mapqual2\<rparr>, fst sd3)))"

subsection \<open>Vocabulary for the properties of the residual loop\<close>

text \<open>The array index \<^verbatim>\<open>ii = i*bstride + j*tstride\<close> of bolometer \<open>i\<close> at time slice \<open>j\<close>.\<close>

definition ast_index :: "smf_dims \<Rightarrow> nat \<times> nat \<Rightarrow> nat" where
  "ast_index d = (\<lambda>(i, j). i * bstride d + j * tstride d)"

text \<open>The indices the two nested loops visit, in the order they visit them.\<close>

definition ast_indices :: "('q::len word) smf_typ \<Rightarrow> 'q word list \<Rightarrow> smf_dims \<Rightarrow> nat list" where
  "ast_indices c qua d =
     map (ast_index d)
       (List.product (filter (\<lambda>i. qua ! (i * bstride d) AND SMF__Q_BADB c = 0) [0..<nbolo d])
          [0..<ntslice d])"

text \<open>
  The two data orders of a SMURF time series: bolometer-ordered (the time slices of one
  bolometer are adjacent) and time-ordered (the bolometers of one time slice are adjacent).
\<close>

definition smf_ordered :: "smf_dims \<Rightarrow> bool" where
  "smf_ordered d =
     ((bstride d = ntslice d \<and> tstride d = 1) \<or> (bstride d = 1 \<and> tstride d = nbolo d))"

text \<open>
  A subarray the loop can run on without reading outside an array: the three pointers
  are set, the arrays hold \<open>nbolo * ntslice\<close> elements in one of the two data orders, and
  every LUT entry is the unmapped sentinel or a pixel index below \<open>n\<close>.
\<close>

definition ast_wf :: "nat \<Rightarrow> ('q::len word) smfData \<Rightarrow> bool" where
  "ast_wf n s =
     (case (res_data s, lut_data s, qua_data s) of
        (Some res, Some lut, Some qua) \<Rightarrow>
          smf_ordered (dims s) \<and>
          length res = nbolo (dims s) * ntslice (dims s) \<and>
          length lut = nbolo (dims s) * ntslice (dims s) \<and>
          length qua = nbolo (dims s) * ntslice (dims s) \<and>
          (\<forall>l \<in> set lut. l = VAL__BADI \<or> (0 \<le> l \<and> nat l < n))
      | _ \<Rightarrow> False)"

section \<open>smf_calc_stats: mean and standard deviation of a range\<close>

text \<open>
  The type codes of \<^verbatim>\<open>smf_typ.h\<close> that the routine tells apart; \<open>SMF__OTHER\<close> stands for
  every code that falls into the \<^verbatim>\<open>default\<close> branches.
\<close>

datatype smf_dtype = SMF__DOUBLE | SMF__INTEGER | SMF__OTHER

text \<open>
  The array behind \<^verbatim>\<open>(data->pntr)[0]\<close>, as the routine reads it through \<^verbatim>\<open>double *in_d\<close>
  and through \<^verbatim>\<open>int *in_i\<close>.
\<close>

record smf_pntr =
  in_d :: "real list"
  in_i :: "int list"

record stats_smfData =
  ndims :: int
  sdims :: "nat list"
  dtype :: smf_dtype
  pntr0 :: "smf_pntr option"

text \<open>
  \<^verbatim>\<open>smf_malloc\<close> and the KAPLIBS routines \<^verbatim>\<open>kpgStatd\<close> and \<^verbatim>\<open>kpgStati\<close> are not among the
  sources and are parameters.
  \<^item> \<open>smf_malloc n\<close> is \<open>None\<close> when an array of \<open>n\<close> elements is allocated (the status stays
    good), and \<open>Some st\<close> when \<^verbatim>\<open>smf_malloc\<close> returns NULL, \<open>st\<close> being the status that
    \<^verbatim>\<open>smf_malloc\<close> and the \<^verbatim>\<open>errRep\<close> of line 293 leave.
  \<^item> \<open>kpgStatd el xs\<close> and \<open>kpgStati el xs\<close> are the mean, the standard deviation and the
    status that the routine leaves for the element count \<open>el\<close>, an \<^verbatim>\<open>int\<close>, and an array that
    starts with the values \<open>xs\<close>.
\<close>

record stats_helpers =
  smf_malloc :: "nat \<Rightarrow> int option"
  kpgStatd :: "int \<Rightarrow> real list \<Rightarrow> real \<times> real \<times> int"
  kpgStati :: "int \<Rightarrow> int list \<Rightarrow> real \<times> real \<times> int"

text \<open>\<^verbatim>\<open>strncmp( mode, c, 1 ) == 0\<close> for a one-character string \<open>c\<close>.\<close>

definition strncmp1 :: "string \<Rightarrow> char \<Rightarrow> bool" where
  "strncmp1 mode c = (case mode of [] \<Rightarrow> False | x # _ \<Rightarrow> x = c)"

text \<open>
  The declaration of \<^verbatim>\<open>dim_t\<close> is not among the sources: it is an unsigned integer type
  of \<open>w\<close> bits, \<open>w\<close> a parameter (SMURF declares it as \<^verbatim>\<open>size_t\<close>, so \<open>w = 64\<close> on an LP64
  platform), and \<^verbatim>\<open>size_t\<close> has the same width. An \<^verbatim>\<open>int\<close> has 32 bits: converting a
  \<^verbatim>\<open>dim_t\<close> or \<^verbatim>\<open>size_t\<close> value to \<^verbatim>\<open>int\<close> keeps its low 32 bits as a two's complement number.
  This happens in the swap, whose variable \<^verbatim>\<open>temp\<close> is an \<^verbatim>\<open>int\<close> (\<^verbatim>\<open>temp = lo\<close>, then
  \<^verbatim>\<open>hi = temp\<close> converts back to \<^verbatim>\<open>dim_t\<close>), and in the calls of \<^verbatim>\<open>kpgStatd\<close> and \<^verbatim>\<open>kpgStati\<close>,
  which take the number of elements \<^verbatim>\<open>npts\<close>, a \<^verbatim>\<open>size_t\<close>, as an \<^verbatim>\<open>int\<close>.
\<close>

definition int_of_dim_t :: "nat \<Rightarrow> int" where
  "int_of_dim_t n =
     (if int n mod 2 ^ 32 < 2 ^ 31 then int n mod 2 ^ 32 else int n mod 2 ^ 32 - 2 ^ 32)"

definition dim_t_of_int :: "nat \<Rightarrow> int \<Rightarrow> nat" where
  "dim_t_of_int w x = nat (x mod 2 ^ w)"

text \<open>Lines 260-267: the bounds after \<^verbatim>\<open>if ( lo > hi ) { temp = lo; lo = hi; hi = temp; }\<close>.\<close>

definition stats_swap :: "nat \<Rightarrow> nat \<Rightarrow> nat \<Rightarrow> nat \<times> nat" where
  "stats_swap w lo hi =
     (if lo > hi then (hi, dim_t_of_int w (int_of_dim_t lo)) else (lo, hi))"

text \<open>Lines 269-272: both bounds zero select the whole range.\<close>

definition stats_whole :: "nat \<Rightarrow> nat \<times> nat \<Rightarrow> nat \<times> nat" where
  "stats_whole nsamp lh =
     (if fst lh = 0 \<and> snd lh = 0 then (fst lh, nsamp - 1) else lh)"

text \<open>
  Lines 298-361, after the statistics array of \<open>npts\<close> elements was allocated: the values
  are copied and handed to KAPLIBS together with the count \<^verbatim>\<open>npts\<close>, converted to \<^verbatim>\<open>int\<close>. The
  result is \<open>None\<close> where the C program has no defined result: the copy loop reads beyond
  the input array, its bound \<open>hi\<close> is the largest \<^verbatim>\<open>size_t\<close> and \<^verbatim>\<open>k <= hi\<close> never fails, or
  \<open>hi < lo\<close> and the statistics array is never written.
\<close>

definition stats_compute ::
  "nat \<Rightarrow> stats_helpers \<Rightarrow> stats_smfData \<Rightarrow> nat \<Rightarrow> nat \<Rightarrow> nat \<Rightarrow> nat \<Rightarrow> nat \<Rightarrow>
   (real \<times> real \<times> int) option" where
  "stats_compute w h data offset mult lo hi npts =
     (case pntr0 data of
        None \<Rightarrow> Some (VAL__BADD, VAL__BADD, SAI__ERROR)
      | Some indata \<Rightarrow>
          (case dtype data of
             SMF__DOUBLE \<Rightarrow>
               (if lo \<le> hi \<and> hi < 2 ^ w - 1 \<and> offset + hi * mult < length (in_d indata)
                then Some (kpgStatd h (int_of_dim_t npts)
                             (map (\<lambda>k. in_d indata ! (offset + k * mult)) [lo..<hi + 1]))
                else None)
           | SMF__INTEGER \<Rightarrow>
               (if lo \<le> hi \<and> hi < 2 ^ w - 1 \<and> offset + hi * mult < length (in_i indata)
                then Some (kpgStati h (int_of_dim_t npts)
                             (map (\<lambda>k. in_i indata ! (offset + k * mult)) [lo..<hi + 1]))
                else None)
           | SMF__OTHER \<Rightarrow> Some (VAL__BADD, VAL__BADD, SAI__ERROR)))"

text \<open>
  Lines 204-224: the largest index plus one, the number of samples and the number of
  bolometers, for mode \<^verbatim>\<open>"b"\<close> (one bolometer along time) and for mode \<^verbatim>\<open>"t"\<close> (one time
  slice across bolometers). The products of dimensions are taken not to overflow.
\<close>

definition stats_nmax :: "stats_smfData \<Rightarrow> string \<Rightarrow> nat" where
  "stats_nmax data mode =
     (if strncmp1 mode CHR ''b'' then sdims data ! 0 * sdims data ! 1 else sdims data ! 2)"

definition stats_nsamp :: "stats_smfData \<Rightarrow> string \<Rightarrow> nat" where
  "stats_nsamp data mode =
     (if strncmp1 mode CHR ''b'' then sdims data ! 2 else sdims data ! 0 * sdims data ! 1)"

definition stats_nbol :: "stats_smfData \<Rightarrow> nat" where
  "stats_nbol data = sdims data ! 0 * sdims data ! 1"

text \<open>
  \<^verbatim>\<open>smf_calc_stats\<close>: the values of \<^verbatim>\<open>*mean\<close>, \<^verbatim>\<open>*stdev\<close> and \<^verbatim>\<open>*status\<close> on return, from
  their values \<open>r\<close> on entry. Every error return leaves the bad value in \<^verbatim>\<open>*mean\<close> and
  \<^verbatim>\<open>*stdev\<close>; the status is \<open>SAI__ERROR\<close> where the routine sets it, and what \<^verbatim>\<open>smf_malloc\<close>
  leaves where the allocation fails.
\<close>

definition smf_calc_stats ::
  "nat \<Rightarrow> stats_helpers \<Rightarrow> stats_smfData \<Rightarrow> string \<Rightarrow> nat \<Rightarrow> nat \<Rightarrow> nat \<Rightarrow>
   real \<times> real \<times> int \<Rightarrow> (real \<times> real \<times> int) option" where
  "smf_calc_stats w h data mode index lo hi r =
     (if snd (snd r) \<noteq> SAI__OK then Some r
      else if ndims data \<noteq> 3 then Some (VAL__BADD, VAL__BADD, SAI__ERROR)
      else if \<not> strncmp1 mode CHR ''b'' \<and> \<not> strncmp1 mode CHR ''t''
      then Some (VAL__BADD, VAL__BADD, SAI__ERROR)
      else if index \<ge> stats_nmax data mode then Some (VAL__BADD, VAL__BADD, SAI__ERROR)
      else if lo \<ge> stats_nsamp data mode then Some (VAL__BADD, VAL__BADD, SAI__ERROR)
      else if hi \<ge> stats_nsamp data mode then Some (VAL__BADD, VAL__BADD, SAI__ERROR)
      else
        (let (lo1, hi1) = stats_whole (stats_nsamp data mode) (stats_swap w lo hi)
         in if lo1 = hi1 then Some (VAL__BADD, VAL__BADD, SAI__ERROR)
            else
              (let npts = (hi1 + 2 ^ w - lo1 + 1) mod 2 ^ w
               in case smf_malloc h npts of
                    Some st \<Rightarrow> Some (VAL__BADD, VAL__BADD, st)
                  | None \<Rightarrow>
                      stats_compute w h data
                        (if strncmp1 mode CHR ''b'' then index else stats_nbol data * index)
                        (if strncmp1 mode CHR ''b'' then stats_nbol data else 1)
                        lo1 hi1 npts)))"

section \<open>smurf_makemap: the exposure time of the iterative map\<close>

text \<open>
  Lines 1175-1185: the loop over the \<open>nxy\<close> pixels, from the map and the hits map that
  \<^verbatim>\<open>smf_iteratemap\<close> left. The state of the loop is the array \<open>exp_time\<close> and the running
  maximum \<open>maxtexp\<close>; the loop runs only while the status is good, and nothing in it
  changes the status.
\<close>

definition makemap_exp_pixel ::
  "real \<Rightarrow> real list \<Rightarrow> nat list \<Rightarrow> nat \<Rightarrow> real list \<times> real \<Rightarrow> real list \<times> real" where
  "makemap_exp_pixel steptime mp hitsmap i em =
     (if mp ! i = VAL__BADD then ((fst em)[i := VAL__BADD], snd em)
      else
        (let e = steptime * real (hitsmap ! i)
         in ((fst em)[i := e], if e > snd em then e else snd em)))"

definition makemap_exp_time ::
  "real \<Rightarrow> real list \<Rightarrow> nat list \<Rightarrow> nat \<Rightarrow> int \<Rightarrow> real list \<times> real \<Rightarrow> real list \<times> real" where
  "makemap_exp_time steptime mp hitsmap nxy status em =
     (if status = SAI__OK
      then fold (makemap_exp_pixel steptime mp hitsmap) [0..<nxy] em
      else em)"

text \<open>
  Modelled from the spec: \<^verbatim>\<open>smf_find_median\<close> and the constant \<^verbatim>\<open>VAL__BADR\<close> are not among
  the sources. The spec has the output carry the median of the exposure-time array
  "across valid pixels": the median of the entries that are not the undefined sentinel
  (the middle one of the sorted entries, or the mean of the two middle ones), and the
  bad value of the result type when there is no such entry.
\<close>

definition VAL__BADR :: real where
  "VAL__BADR = - (2 ^ 128 - 2 ^ 104)"

definition median :: "real list \<Rightarrow> real" where
  "median vs = (sort vs ! ((length vs - 1) div 2) + sort vs ! (length vs div 2)) / 2"

definition smf_find_median :: "real list \<Rightarrow> nat \<Rightarrow> real" where
  "smf_find_median darray nel =
     (let vs = filter (\<lambda>v. v \<noteq> VAL__BADD) (take nel darray)
      in if vs = [] then VAL__BADR else median vs)"

text \<open>
  Lines 1204-1212: \<open>medtexp\<close> is initialised to 0 and assigned by \<^verbatim>\<open>smf_find_median\<close> when
  the status is good; the \<^verbatim>\<open>EXP_TIME\<close> card that \<^verbatim>\<open>atlPtftr\<close> stores in the FITS header, if
  any. The variable is a \<^verbatim>\<open>float\<close>; its rounding is outside the model.
\<close>

definition makemap_medtexp :: "real list \<Rightarrow> nat \<Rightarrow> int \<Rightarrow> real" where
  "makemap_medtexp exp_time nxy status =
     (if status = SAI__OK then smf_find_median exp_time nxy else 0)"

definition makemap_exp_card :: "real list \<Rightarrow> nat \<Rightarrow> int \<Rightarrow> real option" where
  "makemap_exp_card exp_time nxy status =
     (if makemap_medtexp exp_time nxy status \<noteq> VAL__BADR \<and> status = SAI__OK
      then Some (makemap_medtexp exp_time nxy status)
      else None)"

text \<open>The exposure-time array, its maximum and the header card that the task writes.\<close>

definition smurf_makemap_exposure ::
  "real \<Rightarrow> real list \<Rightarrow> nat list \<Rightarrow> nat \<Rightarrow> int \<Rightarrow> real list \<Rightarrow>
   real list \<times> real \<times> real option" where
  "smurf_makemap_exposure steptime mp hitsmap nxy status exp_time =
     (let em = makemap_exp_time steptime mp hitsmap nxy status (exp_time, 0)
      in (fst em, snd em, makemap_exp_card (fst em) nxy status))"

subsection \<open>Vocabulary for the properties of the exposure time\<close>

text \<open>The exposure time the loop stores for pixel \<open>i\<close>.\<close>

definition makemap_exp_value :: "real \<Rightarrow> real list \<Rightarrow> nat list \<Rightarrow> nat \<Rightarrow> real" where
  "makemap_exp_value steptime mp hitsmap i =
     (if mp ! i = VAL__BADD then VAL__BADD else steptime * real (hitsmap ! i))"

text \<open>The exposure times of the valid pixels, those whose map value is defined.\<close>

definition makemap_valid :: "real \<Rightarrow> real list \<Rightarrow> nat list \<Rightarrow> nat \<Rightarrow> real list" where
  "makemap_valid steptime mp hitsmap nxy =
     map (\<lambda>i. steptime * real (hitsmap ! i)) (filter (\<lambda>i. mp ! i \<noteq> VAL__BADD) [0..<nxy])"

section \<open>Sample inputs\<close>

text \<open>
  Concrete inputs on which the theorems below are instantiated: bit masks, library
  routines (a spike detector that flags nothing, a filter that halves the map, no mask),
  a keymap with the given \<^verbatim>\<open>GAUSSBG\<close>, and the chunk of the scenario of the spec (four
  samples of two bolometers, bolometer-ordered) over a map of two pixels.
\<close>

definition ex_typ :: "16 word smf_typ" where
  "ex_typ = \<lparr>SMF__Q_BADB = 2, SMF__Q_MOD = 7, SMF__MAPQ_ZERO = 1,
              SMF__DIMM_FIRSTITER = 1, SMF__DIMM_LASTITER = 2\<rparr>"

definition ex_helpers :: "16 word ast_helpers" where
  "ex_helpers = \<lparr>smf_map_spikes = (\<lambda>mp s. s), smf_create_smfData = SAI__OK,
                  smf_filter_execute = (\<lambda>g mp. map (\<lambda>v. v / 2) mp), smf_get_mask = None\<rparr>"

definition ex_keymap :: "real \<Rightarrow> ast_keymap" where
  "ex_keymap g = \<lparr>GAUSSBG = g, MAPSPIKE = 0, ZERO_NOTLAST = 0\<rparr>"

definition ex_sub :: "16 word smfData" where
  "ex_sub = \<lparr>res_data = Some [5, 7, 2, 4], lut_data = Some [0, 0, 1, 1],
              qua_data = Some [0, 0, 0, 0],
              dims = \<lparr>nbolo = 2, ntslice = 2, bstride = 2, tstride = 1\<rparr>\<rparr>"

definition ex_dat :: "real list \<Rightarrow> 16 word smfDIMMData" where
  "ex_dat mp = \<lparr>sdata = [ex_sub], noi = False, map_arr = mp, mapqual = [0, 0],
                 mapvar = [1, 1], msize = 2\<rparr>"

text \<open>
  For \<^verbatim>\<open>smf_calc_stats\<close>: a time series of one bolometer with \<open>n\<close> samples, all of value
  \<open>v\<close>; an allocator that can provide up to \<open>2^40\<close> elements; and statistics routines that
  return the mean and the sample standard deviation of the array when the count is the
  length of the array and more than one, and fail otherwise.
\<close>

definition ex_series :: "nat \<Rightarrow> real \<Rightarrow> stats_smfData" where
  "ex_series n v = \<lparr>ndims = 3, sdims = [1, 1, n], dtype = SMF__DOUBLE,
                      pntr0 = Some \<lparr>in_d = replicate n v, in_i = []\<rparr>\<rparr>"

definition ex_mean :: "real list \<Rightarrow> real" where
  "ex_mean xs = sum_list xs / real (length xs)"

definition ex_stdev :: "real list \<Rightarrow> real" where
  "ex_stdev xs = sqrt (sum_list (map (\<lambda>x. (x - ex_mean xs) ^ 2) xs) / real (length xs - 1))"

definition ex_stats :: stats_helpers where
  "ex_stats = \<lparr>smf_malloc = (\<lambda>n. if n \<le> 2 ^ 40 then None else Some SAI__ERROR),
                kpgStatd = (\<lambda>el xs. if el = int (length xs) \<and> 1 < el
                                     then (ex_mean xs, ex_stdev xs, SAI__OK)
                                     else (VAL__BADD, VAL__BADD, SAI__ERROR)),
                kpgStati = (\<lambda>el xs. if el = int (length xs) \<and> 1 < el
                                     then (ex_mean (map real_of_int xs),
                                           ex_stdev (map real_of_int xs), SAI__OK)
                                     else (VAL__BADD, VAL__BADD, SAI__ERROR))\<rparr>"

section \<open>Properties of the residual loop\<close>

lemma ast_sample_length: "length (ast_sample c z mp lut qua ii res) = length res"
  by (simp add: ast_sample_def Let_def)

lemma ast_sample_other: "k \<noteq> ii \<Longrightarrow> ast_sample c z mp lut qua ii res ! k = res ! k"
  by (simp add: ast_sample_def Let_def)

lemma ast_sample_cong:
  "length r1 = length r2 \<Longrightarrow> r1 ! k = r2 ! k \<Longrightarrow>
   ast_sample c z mp lut qua k r1 ! k = ast_sample c z mp lut qua k r2 ! k"
  by (cases "k < length r2") (simp_all add: ast_sample_def Let_def list_update_beyond)

lemma fold_ast_sample_length:
  "length (fold (ast_sample c z mp lut qua) is res) = length res"
  by (induction "is" arbitrary: res) (simp_all add: ast_sample_length)

lemma fold_ast_sample_nth:
  "distinct is \<Longrightarrow>
   fold (ast_sample c z mp lut qua) is res ! k =
     (if k \<in> set is then ast_sample c z mp lut qua k res ! k else res ! k)"
proof (induction "is" arbitrary: res)
  case Nil
  then show ?case by simp
next
  case (Cons i "is")
  have d: "distinct is" and ni: "i \<notin> set is" using Cons.prems by simp_all
  show ?case
  proof (cases "k = i")
    case True
    then show ?thesis using ni Cons.IH [OF d] by simp
  next
    case False
    have "ast_sample c z mp lut qua k (ast_sample c z mp lut qua i res) ! k
            = ast_sample c z mp lut qua k res ! k"
      by (rule ast_sample_cong) (simp_all add: ast_sample_length ast_sample_other False)
    then show ?thesis using False Cons.IH [OF d] by (simp add: ast_sample_other)
  qed
qed

lemma fold_if_filter:
  "fold (\<lambda>i r. if P i then f i r else r) xs = fold f (filter P xs)"
  by (induction xs) (simp_all add: fun_eq_iff)

lemma fold_fold_product:
  "fold (\<lambda>i. fold (\<lambda>j. g (ix i j)) ys) xs = fold g (map (\<lambda>(i, j). ix i j) (List.product xs ys))"
  by (induction xs) (simp_all add: fold_map comp_def fun_eq_iff)

lemma ast_bolos_fold:
  "ast_bolos c z mp lut qua d res = fold (ast_sample c z mp lut qua) (ast_indices c qua d) res"
proof -
  have "ast_bolos c z mp lut qua d =
          fold (\<lambda>i. fold (\<lambda>j. ast_sample c z mp lut qua (i * bstride d + j * tstride d)) [0..<ntslice d])
            (filter (\<lambda>i. qua ! (i * bstride d) AND SMF__Q_BADB c = 0) [0..<nbolo d])"
    unfolding ast_bolos_def ast_tslices_def fun_eq_iff
    by (simp add: fold_if_filter [symmetric])
  also have "\<dots> = fold (ast_sample c z mp lut qua) (ast_indices c qua d)"
    unfolding ast_indices_def ast_index_def by (rule fold_fold_product)
  finally show ?thesis by simp
qed

lemma ast_index_inj:
  assumes "smf_ordered d"
  shows "inj_on (ast_index d) ({..<nbolo d} \<times> {..<ntslice d})"
proof (rule inj_onI)
  fix x y assume x: "x \<in> {..<nbolo d} \<times> {..<ntslice d}" and y: "y \<in> {..<nbolo d} \<times> {..<ntslice d}"
    and e: "ast_index d x = ast_index d y"
  obtain i j where xx: "x = (i, j)" by (cases x)
  obtain i' j' where yy: "y = (i', j')" by (cases y)
  have b: "i < nbolo d" "j < ntslice d" "i' < nbolo d" "j' < ntslice d" using x y xx yy by auto
  from assms consider "bstride d = ntslice d \<and> tstride d = 1" | "bstride d = 1 \<and> tstride d = nbolo d"
    unfolding smf_ordered_def by blast
  then show "x = y"
  proof cases
    case 1
    then have e1: "i * ntslice d + j = i' * ntslice d + j'" using e xx yy by (simp add: ast_index_def)
    have "(i * ntslice d + j) div ntslice d = i" "(i' * ntslice d + j') div ntslice d = i'"
         "(i * ntslice d + j) mod ntslice d = j" "(i' * ntslice d + j') mod ntslice d = j'"
      using b by simp_all
    then show ?thesis using e1 xx yy by metis
  next
    case 2
    then have e1: "j * nbolo d + i = j' * nbolo d + i'" using e xx yy by (simp add: ast_index_def)
    have "(j * nbolo d + i) div nbolo d = j" "(j' * nbolo d + i') div nbolo d = j'"
         "(j * nbolo d + i) mod nbolo d = i" "(j' * nbolo d + i') mod nbolo d = i'"
      using b by simp_all
    then show ?thesis using e1 xx yy by metis
  qed
qed

lemma ast_indices_distinct:
  assumes "smf_ordered d"
  shows "distinct (ast_indices c qua d)"
  unfolding ast_indices_def
proof (rule distinct_map [THEN iffD2], rule conjI)
  show "distinct (List.product (filter (\<lambda>i. qua ! (i * bstride d) AND SMF__Q_BADB c = 0) [0..<nbolo d]) [0..<ntslice d])"
    by (simp add: distinct_product)
  show "inj_on (ast_index d) (set (List.product (filter (\<lambda>i. qua ! (i * bstride d) AND SMF__Q_BADB c = 0) [0..<nbolo d]) [0..<ntslice d]))"
    by (rule inj_on_subset [OF ast_index_inj [OF assms]]) auto
qed

lemma ast_indices_set:
  "k \<in> set (ast_indices c qua d) \<longleftrightarrow>
     (\<exists>i<nbolo d. \<exists>j<ntslice d. qua ! (i * bstride d) AND SMF__Q_BADB c = 0 \<and>
        k = i * bstride d + j * tstride d)"
proof
  assume "k \<in> set (ast_indices c qua d)"
  then obtain i j where "i < nbolo d" "j < ntslice d"
      "qua ! (i * bstride d) AND SMF__Q_BADB c = 0" "k = i * bstride d + j * tstride d"
    unfolding ast_indices_def ast_index_def by auto
  then show "\<exists>i<nbolo d. \<exists>j<ntslice d. qua ! (i * bstride d) AND SMF__Q_BADB c = 0 \<and>
        k = i * bstride d + j * tstride d"
    by blast
next
  assume "\<exists>i<nbolo d. \<exists>j<ntslice d. qua ! (i * bstride d) AND SMF__Q_BADB c = 0 \<and>
        k = i * bstride d + j * tstride d"
  then obtain i j where ij: "i < nbolo d" "j < ntslice d"
      "qua ! (i * bstride d) AND SMF__Q_BADB c = 0" "k = i * bstride d + j * tstride d"
    by blast
  then have "(i, j) \<in> set (List.product
       (filter (\<lambda>i. qua ! (i * bstride d) AND SMF__Q_BADB c = 0) [0..<nbolo d]) [0..<ntslice d])"
    by simp
  moreover have "ast_index d (i, j) = k" using ij by (simp add: ast_index_def)
  ultimately show "k \<in> set (ast_indices c qua d)"
    unfolding ast_indices_def set_map by (rule image_eqI [OF sym, rotated]) 
qed

lemma ast_bolos_nth:
  assumes "smf_ordered d"
  shows "ast_bolos c z mp lut qua d res ! k =
     (if (\<exists>i<nbolo d. \<exists>j<ntslice d. qua ! (i * bstride d) AND SMF__Q_BADB c = 0 \<and>
            k = i * bstride d + j * tstride d)
      then ast_sample c z mp lut qua k res ! k else res ! k)"
  unfolding ast_bolos_fold
  by (simp only: fold_ast_sample_nth [OF ast_indices_distinct [OF assms]] ast_indices_set)

lemma ast_bolos_length: "length (ast_bolos c z mp lut qua d res) = length res"
  unfolding ast_bolos_fold by (rule fold_ast_sample_length)

lemma ast_wf_D:
  assumes "ast_wf n s"
  obtains res lut qua where "res_data s = Some res" "lut_data s = Some lut" "qua_data s = Some qua"
    "smf_ordered (dims s)" "length res = nbolo (dims s) * ntslice (dims s)"
    "length lut = nbolo (dims s) * ntslice (dims s)" "length qua = nbolo (dims s) * ntslice (dims s)"
    "\<forall>l \<in> set lut. l = VAL__BADI \<or> (0 \<le> l \<and> nat l < n)"
  using assms unfolding ast_wf_def by (auto split: option.splits)

lemma ast_subarray_ok:
  assumes "res_data s = Some res" "lut_data s = Some lut" "qua_data s = Some qua"
  shows "ast_subarray c z mp (SAI__OK, d) s =
           ((SAI__OK, dims s), s\<lparr>res_data := Some (ast_bolos c z mp lut qua (dims s) res)\<rparr>)"
  using assms by (simp add: ast_subarray_def Let_def)

lemma ast_subarrays_ok:
  assumes "\<forall>s \<in> set ss. ast_wf n s"
  shows "snd (ast_subarrays c z mp (SAI__OK, d) ss) =
           map (\<lambda>s. s\<lparr>res_data := Some (ast_bolos c z mp (the (lut_data s)) (the (qua_data s))
                         (dims s) (the (res_data s)))\<rparr>) ss
         \<and> fst (fst (ast_subarrays c z mp (SAI__OK, d) ss)) = SAI__OK"
  using assms
proof (induction ss arbitrary: d)
  case Nil
  then show ?case by simp
next
  case (Cons s ss)
  from Cons.prems have "ast_wf n s" by simp
  then obtain res lut qua where
    p: "res_data s = Some res" "lut_data s = Some lut" "qua_data s = Some qua"
    by (rule ast_wf_D)
  have ih: "\<forall>s \<in> set ss. ast_wf n s" using Cons.prems by simp
  show ?case
    using Cons.IH [OF ih, of "dims s"] p
    by (simp add: ast_subarray_ok [OF p] split_beta)
qed

lemma ast_bolos_nothing:
  "nbolo d = 0 \<Longrightarrow> ast_bolos c z mp lut qua d res = res"
  by (simp add: ast_bolos_def)

lemma ast_subarrays_length: "length (snd (ast_subarrays c z mp sd ss)) = length ss"
  by (induction ss arbitrary: sd) (simp_all add: split_beta)

lemma SAI__ERROR_bad: "SAI__ERROR \<noteq> SAI__OK"
  by (simp add: SAI__ERROR_def SAI__OK_def)

lemma ast_subarray_bad:
  assumes "st \<noteq> SAI__OK" "nbolo d = 0"
  shows "ast_subarray c z mp (st, d) s = ((st, d), s) \<or>
         ast_subarray c z mp (st, d) s = ((SAI__ERROR, d), s)"
proof (cases "\<exists>res lut qua. res_data s = Some res \<and> lut_data s = Some lut \<and> qua_data s = Some qua")
  case True
  then obtain res lut qua where
    p: "res_data s = Some res" "lut_data s = Some lut" "qua_data s = Some qua" by blast
  have "ast_subarray c z mp (st, d) s = ((st, d), s)"
    using p assms by (simp add: ast_subarray_def ast_bolos_nothing)
  then show ?thesis by simp
next
  case False
  then have "ast_subarray c z mp (st, d) s = ((SAI__ERROR, d), s)"
    by (auto simp: ast_subarray_def split: option.splits)
  then show ?thesis by simp
qed

lemma ast_subarrays_bad:
  assumes "st \<noteq> SAI__OK" "nbolo d = 0"
  shows "snd (ast_subarrays c z mp (st, d) ss) = ss \<and>
         fst (fst (ast_subarrays c z mp (st, d) ss)) \<noteq> SAI__OK"
  using assms
proof (induction ss arbitrary: st)
  case Nil
  then show ?case by simp
next
  case (Cons s ss)
  from ast_subarray_bad [OF Cons.prems, of c z mp s] show ?case
  proof
    assume "ast_subarray c z mp (st, d) s = ((st, d), s)"
    then show ?thesis using Cons.IH [OF Cons.prems] by (simp add: split_beta)
  next
    assume "ast_subarray c z mp (st, d) s = ((SAI__ERROR, d), s)"
    then show ?thesis using Cons.IH [OF SAI__ERROR_bad Cons.prems(2)] by (simp add: split_beta)
  qed
qed

lemma ast_subarrays_error:
  assumes "nbolo d = 0"
  shows "fst (fst (ast_subarrays c z mp (SAI__ERROR, d) ss)) = SAI__ERROR"
  using assms
proof (induction ss)
  case Nil
  then show ?case by simp
next
  case (Cons s ss)
  from ast_subarray_bad [OF SAI__ERROR_bad Cons.prems, of c z mp s]
  have "ast_subarray c z mp (SAI__ERROR, d) s = ((SAI__ERROR, d), s)" by auto
  then show ?case using Cons.IH [OF Cons.prems] by (simp add: split_beta)
qed

lemmas ex_defs = ex_typ_def ex_helpers_def ex_keymap_def ex_sub_def ex_dat_def
lemmas ast_defs = smf_calcmodel_ast_def ast_parse_def ast_spikes_def ast_filter_def
  ast_constrain_def ast_zero_mask_def ast_subarray_def ast_bolos_def ast_tslices_def
  ast_sample_def ast_masked_def ast_reset_zero_def ast_flag_zero_def ast_bad_to_zero_def
  SAI__OK_def SAI__ERROR_def VAL__BADI_def VAL__BADD_def Let_def

section \<open>The routine on the good path\<close>

lemma ast_filter_status_good:
  assumes "smf_create_smfData h = SAI__OK"
  shows "fst (ast_filter c h g zn flags n SAI__OK mp) = SAI__OK"
  using assms by (simp add: ast_filter_def Let_def)

lemma smf_calcmodel_ast_good:
  assumes "0 \<le> GAUSSBG k" and "smf_create_smfData h = SAI__OK"
  shows "smf_calcmodel_ast c h k flags (dat, SAI__OK) =
     (dat\<lparr>sdata := snd (ast_subarrays c (smf_get_mask h)
                 (snd (ast_filter c h (GAUSSBG k) (ZERO_NOTLAST k) flags (msize dat) SAI__OK (map_arr dat)))
                 (SAI__OK, \<lparr>nbolo = 0, ntslice = 0, bstride = 0, tstride = 0\<rparr>)
                 (ast_spikes c h k flags SAI__OK dat)),
           map_arr := snd (ast_filter c h (GAUSSBG k) (ZERO_NOTLAST k) flags (msize dat) SAI__OK (map_arr dat)),
           mapqual := ast_zero_mask c (smf_get_mask h) (msize dat)
                 (snd (ast_filter c h (GAUSSBG k) (ZERO_NOTLAST k) flags (msize dat) SAI__OK (map_arr dat)))
                 (mapvar dat) (mapqual dat)\<rparr>,
      fst (fst (ast_subarrays c (smf_get_mask h)
                 (snd (ast_filter c h (GAUSSBG k) (ZERO_NOTLAST k) flags (msize dat) SAI__OK (map_arr dat)))
                 (SAI__OK, \<lparr>nbolo = 0, ntslice = 0, bstride = 0, tstride = 0\<rparr>)
                 (ast_spikes c h k flags SAI__OK dat))))"
proof -
  have p: "ast_parse k SAI__OK = SAI__OK" using assms(1) by (simp add: ast_parse_def)
  have f: "fst (ast_filter c h (GAUSSBG k) (ZERO_NOTLAST k) flags (msize dat) SAI__OK (map_arr dat)) = SAI__OK"
    by (rule ast_filter_status_good [OF assms(2)])
  show ?thesis
    unfolding smf_calcmodel_ast_def by (simp add: p f Let_def split_beta)
qed

lemma ast_sample_nth_self:
  assumes "ii < length res"
  shows "ast_sample c z mp lut qua ii res ! ii =
     (if lut ! ii \<noteq> VAL__BADI \<and> \<not> ast_masked z (nat (lut ! ii)) \<and>
         mp ! nat (lut ! ii) \<noteq> VAL__BADD \<and> qua ! ii AND SMF__Q_MOD c = 0
      then res ! ii - mp ! nat (lut ! ii) else res ! ii)"
  using assms by (simp add: ast_sample_def ast_masked_def Let_def)

lemma ast_index_bound:
  assumes "smf_ordered d" "i < nbolo d" "j < ntslice d"
  shows "i * bstride d + j * tstride d < nbolo d * ntslice d"
proof -
  from assms(1) consider "bstride d = ntslice d \<and> tstride d = 1" | "bstride d = 1 \<and> tstride d = nbolo d"
    unfolding smf_ordered_def by blast
  then show ?thesis
  proof cases
    case 1
    have "i * ntslice d + j < i * ntslice d + ntslice d" using assms(3) by simp
    also have "\<dots> = Suc i * ntslice d" by simp
    also have "\<dots> \<le> nbolo d * ntslice d" using assms(2) by (intro mult_le_mono1) simp
    finally show ?thesis using 1 by simp
  next
    case 2
    have "i + j * nbolo d < nbolo d + j * nbolo d" using assms(2) by simp
    also have "\<dots> = Suc j * nbolo d" by simp
    also have "\<dots> \<le> ntslice d * nbolo d" using assms(3) by (intro mult_le_mono1) simp
    finally show ?thesis using 2 by (simp add: mult.commute)
  qed
qed

lemma ast_spikes_length: "length (ast_spikes c h k flags st dat) = length (sdata dat)"
  by (simp add: ast_spikes_def split: list.splits)

text \<open>The residual of subarray idx after the routine, on the good path.\<close>

lemma smf_calcmodel_ast_res:
  assumes g: "0 \<le> GAUSSBG k" and cr: "smf_create_smfData h = SAI__OK"
    and wf: "\<forall>s \<in> set (ast_spikes c h k flags SAI__OK dat). ast_wf (msize dat) s"
    and idx: "idx < length (sdata dat)"
    and s: "ast_spikes c h k flags SAI__OK dat ! idx = s"
    and p: "res_data s = Some res" "lut_data s = Some lut" "qua_data s = Some qua"
    and r: "smf_calcmodel_ast c h k flags (dat, SAI__OK) = (dat', status')"
  shows "res_data (sdata dat' ! idx) =
           Some (ast_bolos c (smf_get_mask h) (map_arr dat') lut qua (dims s) res)"
    and "status' = SAI__OK"
proof -
  let ?mp = "snd (ast_filter c h (GAUSSBG k) (ZERO_NOTLAST k) flags (msize dat) SAI__OK (map_arr dat))"
  let ?sd = "ast_subarrays c (smf_get_mask h) ?mp
               (SAI__OK, \<lparr>nbolo = 0, ntslice = 0, bstride = 0, tstride = 0\<rparr>)
               (ast_spikes c h k flags SAI__OK dat)"
  from r have m: "map_arr dat' = ?mp" and sd: "sdata dat' = snd ?sd" and st: "status' = fst (fst ?sd)"
    unfolding smf_calcmodel_ast_good [OF g cr] by auto
  note ok = ast_subarrays_ok [OF wf, of c "smf_get_mask h" ?mp
      "\<lparr>nbolo = 0, ntslice = 0, bstride = 0, tstride = 0\<rparr>"]
  show "status' = SAI__OK" using st ok by simp
  have i': "idx < length (ast_spikes c h k flags SAI__OK dat)" using idx by (simp add: ast_spikes_length)
  show "res_data (sdata dat' ! idx) =
           Some (ast_bolos c (smf_get_mask h) (map_arr dat') lut qua (dims s) res)"
    using ok i' s p by (simp add: sd m)
qed

lemma four_samples:
  assumes "smf_ordered d" "nbolo d * ntslice d = 4"
  shows "d \<in> {\<lparr>nbolo = 1, ntslice = 4, bstride = 4, tstride = 1\<rparr>,
              \<lparr>nbolo = 1, ntslice = 4, bstride = 1, tstride = 1\<rparr>,
              \<lparr>nbolo = 2, ntslice = 2, bstride = 2, tstride = 1\<rparr>,
              \<lparr>nbolo = 2, ntslice = 2, bstride = 1, tstride = 2\<rparr>,
              \<lparr>nbolo = 4, ntslice = 1, bstride = 1, tstride = 1\<rparr>,
              \<lparr>nbolo = 4, ntslice = 1, bstride = 1, tstride = 4\<rparr>}"
proof -
  have "nbolo d dvd 4" using assms(2) by (metis dvd_triv_left)
  then have "nbolo d \<le> 4" by (rule dvd_imp_le) simp
  then have "nbolo d \<in> {0, 1, 2, 3, 4}" by auto
  then have n: "(nbolo d = 1 \<and> ntslice d = 4) \<or> (nbolo d = 2 \<and> ntslice d = 2) \<or>
                (nbolo d = 4 \<and> ntslice d = 1)"
    using assms(2) by auto presburger+
  obtain nb nt bs ts where d: "d = \<lparr>nbolo = nb, ntslice = nt, bstride = bs, tstride = ts\<rparr>"
    by (cases d) auto
  show ?thesis using n assms(1) unfolding d smf_ordered_def by auto
qed

section \<open>Properties of the zero mask\<close>

lemma word_zero_bit_set: "((x AND NOT z) OR z) AND z = (z :: 'a::len word)"
  by (simp add: bit_eq_iff bit_simps) 

lemma word_zero_bit_clear: "(x AND NOT z) AND z = (0 :: 'a::len word)"
  by (simp add: bit_eq_iff bit_simps)

lemma word_zero_bit_rest_set: "((x AND NOT z) OR z) AND NOT z = x AND NOT (z :: 'a::len word)"
  by (auto simp add: bit_eq_iff bit_simps)

lemma word_zero_bit_rest_clear: "(x AND NOT z) AND NOT z = x AND NOT (z :: 'a::len word)"
  by (auto simp add: bit_eq_iff bit_simps)

lemma fold_update_length:
  "length (fold (\<lambda>i q. q[i := f i (q ! i)]) [0..<n] q) = length q"
  by (induction n) simp_all

lemma fold_update_nth:
  "fold (\<lambda>i q. q[i := f i (q ! i)]) [0..<n] q ! k =
     (if k < n \<and> k < length q then f k (q ! k) else q ! k)"
proof (induction n arbitrary: k)
  case 0
  then show ?case by simp
next
  case (Suc n)
  let ?F = "fold (\<lambda>i q. q[i := f i (q ! i)]) [0..<n] q"
  have l: "length ?F = length q" by (rule fold_update_length)
  have s: "fold (\<lambda>i q. q[i := f i (q ! i)]) [0..<Suc n] q = ?F[n := f n (?F ! n)]" by simp
  show ?case
  proof (cases "k = n")
    case True
    show ?thesis
    proof (cases "n < length q")
      case True
      then show ?thesis using \<open>k = n\<close> l Suc [of n] unfolding s by simp
    next
      case False
      then show ?thesis using \<open>k = n\<close> l Suc [of n] unfolding s by (simp add: list_update_beyond)
    qed
  next
    case False
    then show ?thesis using Suc [of k] unfolding s by (auto simp: less_Suc_eq)
  qed
qed

lemma ast_flag_zero_update:
  "ast_flag_zero c n mp mv z mq =
     fold (\<lambda>i q. q[i := (if mp ! i = VAL__BADD \<or> mv ! i = VAL__BADD \<or> mv ! i \<le> 0 \<or> z ! i \<noteq> 0
                          then q ! i OR SMF__MAPQ_ZERO c else q ! i)]) [0..<n] mq"
  unfolding ast_flag_zero_def
  by (rule arg_cong [where f = "\<lambda>f. fold f [0..<n] mq"]) (auto simp: fun_eq_iff)


section \<open>The sample inputs evaluated\<close>

lemma ex_wf: "ast_wf 2 ex_sub"
  by (simp add: ast_wf_def ex_sub_def smf_ordered_def VAL__BADI_def)

lemma ex_spikes: "ast_spikes ex_typ ex_helpers (ex_keymap g) 0 SAI__OK (ex_dat mp) = [ex_sub]"
  by (simp add: ast_spikes_def ex_keymap_def ex_dat_def)

lemma ex_run:
  "smf_calcmodel_ast ex_typ ex_helpers (ex_keymap 0) 0 (ex_dat [a, b], SAI__OK) =
     ((ex_dat [a, b])\<lparr>sdata := [ex_sub\<lparr>res_data :=
         Some [if a = VAL__BADD then 5 else 5 - a, if a = VAL__BADD then 7 else 7 - a,
               if b = VAL__BADD then 2 else 2 - b, if b = VAL__BADD then 4 else 4 - b]\<rparr>]\<rparr>, SAI__OK)"
  by (simp add: ex_defs smf_calcmodel_ast_def ast_parse_def ast_spikes_def ast_filter_def
  ast_constrain_def ast_zero_mask_def ast_subarray_def ast_bolos_def ast_tslices_def
  ast_sample_def ast_masked_def SAI__OK_def VAL__BADI_def Let_def numeral_eq_Suc)

section \<open>The astronomical-signal component: residual subtraction\<close>

text \<open>
  Claim C1. One chunk of four samples, in either data order, with LUT \<open>[0,0,1,1]\<close>,
  residual \<open>[5,7,2,4]\<close>, map value 3 at pixel 0 and 1 at pixel 1, no quality flag set and
  no mask returned, no filter and no spike detection: after \<^verbatim>\<open>smf_calcmodel_ast\<close> the residual
  is \<open>[2,4,1,3]\<close>, whatever the bit masks, the other library routines, the flags and the
  rest of the map state are.
\<close>

theorem ast_scenario:
  assumes "smf_ordered d" and "nbolo d * ntslice d = 4"
  shows "map res_data (sdata (fst (smf_calcmodel_ast c (h\<lparr>smf_get_mask := None\<rparr>)
       \<lparr>GAUSSBG = 0, MAPSPIKE = 0, ZERO_NOTLAST = zn\<rparr> flags
       (\<lparr>sdata = [\<lparr>res_data = Some [5, 7, 2, 4], lut_data = Some [0, 0, 1, 1],
                   qua_data = Some [0, 0, 0, 0], dims = d\<rparr>],
         noi = n, map_arr = [3, 1], mapqual = mq, mapvar = mv, msize = 2\<rparr>, SAI__OK))))
   = [Some [2, 4, 1, 3]]"
  using four_samples [OF assms]
  by (elim insertE emptyE) (simp_all add: ast_defs numeral_eq_Suc)

theorem ast_scenario_witness:
  "smf_ordered \<lparr>nbolo = 2, ntslice = 2, bstride = 1, tstride = 2\<rparr> \<and>
   nbolo \<lparr>nbolo = 2, ntslice = 2, bstride = 1, tstride = 2\<rparr> *
     ntslice \<lparr>nbolo = 2, ntslice = 2, bstride = 1, tstride = 2\<rparr> = 4 \<and>
   map res_data (sdata (fst (smf_calcmodel_ast ex_typ (ex_helpers\<lparr>smf_get_mask := None\<rparr>)
       \<lparr>GAUSSBG = 0, MAPSPIKE = 0, ZERO_NOTLAST = 1\<rparr> 2
       (\<lparr>sdata = [\<lparr>res_data = Some [5, 7, 2, 4], lut_data = Some [0, 0, 1, 1],
                   qua_data = Some [0, 0, 0, 0],
                   dims = \<lparr>nbolo = 2, ntslice = 2, bstride = 1, tstride = 2\<rparr>\<rparr>],
         noi = True, map_arr = [3, 1], mapqual = [0, 0], mapvar = [1, 1], msize = 2\<rparr>, SAI__OK))))
   = [Some [2, 4, 1, 3]]"
proof -
  have o: "smf_ordered \<lparr>nbolo = 2, ntslice = 2, bstride = 1, tstride = 2\<rparr>"
    by (simp add: smf_ordered_def)
  have n: "nbolo \<lparr>nbolo = 2, ntslice = 2, bstride = 1, tstride = 2\<rparr> *
     ntslice \<lparr>nbolo = 2, ntslice = 2, bstride = 1, tstride = 2\<rparr> = 4"
    by simp
  show ?thesis using o n ast_scenario [OF o n] by simp
qed

text \<open>
  Claim C2, amended. On an invocation whose status stays good (the bandwidth is not
  negative and the filter wrapper can be created), take a sample \<open>ii\<close> of bolometer \<open>i\<close> at
  time slice \<open>j\<close> of a well-formed subarray, with a valid LUT entry and a bolometer not
  flagged \<open>SMF__Q_BADB\<close>. Its residual after the routine is its residual before minus the
  value of the mapped pixel, and nothing else is added or subtracted; it is left as it
  was when the mask marks the mapped pixel, when the value of the mapped pixel is the
  undefined sentinel, or when the sample carries a bit of \<open>SMF__Q_MOD\<close>.
\<close>

theorem ast_subtracts:
  assumes "0 \<le> GAUSSBG k" and "smf_create_smfData h = SAI__OK"
    and "\<forall>s \<in> set (ast_spikes c h k flags SAI__OK dat). ast_wf (msize dat) s"
    and "idx < length (sdata dat)"
    and "ast_spikes c h k flags SAI__OK dat ! idx = s"
    and "res_data s = Some res" and "lut_data s = Some lut" and "qua_data s = Some qua"
    and "i < nbolo (dims s)" and "j < ntslice (dims s)"
    and "ii = i * bstride (dims s) + j * tstride (dims s)"
    and "lut ! ii \<noteq> VAL__BADI"
    and "qua ! (i * bstride (dims s)) AND SMF__Q_BADB c = 0"
    and "smf_calcmodel_ast c h k flags (dat, SAI__OK) = (dat', status')"
  shows "res_data (sdata dat' ! idx) \<noteq> None \<and>
         the (res_data (sdata dat' ! idx)) ! ii =
           (if ast_masked (smf_get_mask h) (nat (lut ! ii)) \<or>
               map_arr dat' ! nat (lut ! ii) = VAL__BADD \<or>
               qua ! ii AND SMF__Q_MOD c \<noteq> 0
            then res ! ii
            else res ! ii - map_arr dat' ! nat (lut ! ii))"
proof -
  have wfs: "ast_wf (msize dat) s"
    using assms(3,4,5) by (metis ast_spikes_length nth_mem)
  then have o: "smf_ordered (dims s)" and l: "length res = nbolo (dims s) * ntslice (dims s)"
    using assms(6,7,8) by (auto elim: ast_wf_D)
  have b: "ii < length res" unfolding l assms(11) by (rule ast_index_bound [OF o assms(9,10)])
  have r: "res_data (sdata dat' ! idx) =
             Some (ast_bolos c (smf_get_mask h) (map_arr dat') lut qua (dims s) res)"
    by (rule smf_calcmodel_ast_res [OF assms(1-8) assms(14)])
  have v: "\<exists>i<nbolo (dims s). \<exists>j<ntslice (dims s).
             qua ! (i * bstride (dims s)) AND SMF__Q_BADB c = 0 \<and>
             ii = i * bstride (dims s) + j * tstride (dims s)"
    using assms(9,10,11,13) by blast
  have "ast_bolos c (smf_get_mask h) (map_arr dat') lut qua (dims s) res ! ii =
          ast_sample c (smf_get_mask h) (map_arr dat') lut qua ii res ! ii"
    using v by (simp only: ast_bolos_nth [OF o] if_True)
  then show ?thesis
    using r assms(12) by (simp add: ast_sample_nth_self [OF b])
qed

theorem ast_subtracts_witness:
  "0 \<le> GAUSSBG (ex_keymap 0) \<and> smf_create_smfData ex_helpers = SAI__OK \<and>
   ast_spikes ex_typ ex_helpers (ex_keymap 0) 0 SAI__OK (ex_dat [3, 1]) = [ex_sub] \<and>
   ast_wf (msize (ex_dat [3, 1])) ex_sub \<and>
   0 < length (sdata (ex_dat [3, 1])) \<and>
   ast_spikes ex_typ ex_helpers (ex_keymap 0) 0 SAI__OK (ex_dat [3, 1]) ! 0 = ex_sub \<and>
   res_data ex_sub = Some [5, 7, 2, 4] \<and> lut_data ex_sub = Some [0, 0, 1, 1] \<and>
   qua_data ex_sub = Some [0, 0, 0, 0] \<and>
   1 < nbolo (dims ex_sub) \<and> 0 < ntslice (dims ex_sub) \<and>
   2 = 1 * bstride (dims ex_sub) + 0 * tstride (dims ex_sub) \<and>
   [0, 0, 1, 1] ! 2 \<noteq> VAL__BADI \<and>
   [0, 0, 0, 0] ! (1 * bstride (dims ex_sub)) AND SMF__Q_BADB ex_typ = 0 \<and>
   the (res_data (sdata (fst (smf_calcmodel_ast ex_typ ex_helpers (ex_keymap 0) 0
          (ex_dat [3, 1], SAI__OK))) ! 0)) ! 2 = 2 - 1"
proof -
  have h1: "0 \<le> GAUSSBG (ex_keymap 0)" by (simp add: ex_keymap_def)
  have h2: "smf_create_smfData ex_helpers = SAI__OK" by (simp add: ex_helpers_def)
  have h3: "\<forall>s \<in> set (ast_spikes ex_typ ex_helpers (ex_keymap 0) 0 SAI__OK (ex_dat [3, 1])).
       ast_wf (msize (ex_dat [3, 1])) s"
    by (simp add: ex_spikes ex_wf) (simp add: ex_dat_def ex_wf)
  have h4: "0 < length (sdata (ex_dat [3, 1]))" by (simp add: ex_dat_def)
  have h5: "ast_spikes ex_typ ex_helpers (ex_keymap 0) 0 SAI__OK (ex_dat [3, 1]) ! 0 = ex_sub"
    by (simp add: ex_spikes)
  have h6: "res_data ex_sub = Some [5, 7, 2, 4]" and h7: "lut_data ex_sub = Some [0, 0, 1, 1]"
    and h8: "qua_data ex_sub = Some [0, 0, 0, 0]"
    by (simp_all add: ex_sub_def)
  have h9: "1 < nbolo (dims ex_sub)" and h10: "0 < ntslice (dims ex_sub)"
    and h11: "2 = 1 * bstride (dims ex_sub) + 0 * tstride (dims ex_sub)"
    by (simp_all add: ex_sub_def)
  have h12: "[0, 0, 1, 1] ! 2 \<noteq> VAL__BADI" by (simp add: VAL__BADI_def)
  have h13: "[0, 0, 0, 0] ! (1 * bstride (dims ex_sub)) AND SMF__Q_BADB ex_typ = 0"
    by (simp add: ex_sub_def ex_typ_def)
  have h14: "smf_calcmodel_ast ex_typ ex_helpers (ex_keymap 0) 0 (ex_dat [3, 1], SAI__OK) =
      (fst (smf_calcmodel_ast ex_typ ex_helpers (ex_keymap 0) 0 (ex_dat [3, 1], SAI__OK)),
       snd (smf_calcmodel_ast ex_typ ex_helpers (ex_keymap 0) 0 (ex_dat [3, 1], SAI__OK)))"
    by simp
  note t = ast_subtracts [OF h1 h2 h3 h4 h5 h6 h7 h8 h9 h10 h11 h12 h13 h14]
  have v: "the (res_data (sdata (fst (smf_calcmodel_ast ex_typ ex_helpers (ex_keymap 0) 0
          (ex_dat [3, 1], SAI__OK))) ! 0)) ! 2 = 2 - 1"
    using t unfolding ex_run
    by (simp add: ex_dat_def ex_sub_def ex_helpers_def ast_masked_def ex_typ_def VAL__BADD_def)
  have w: "ast_wf (msize (ex_dat [3, 1])) ex_sub" by (simp add: ex_dat_def ex_wf)
  show ?thesis using h1 h2 w h4 h5 h6 h7 h8 h9 h10 h11 h12 h13 v by (simp add: ex_spikes)
qed

text \<open>
  The claim as stated fails where the mapped pixel holds the undefined sentinel: the LUT
  entry is valid, the bolometer is good, no mask is in use and the sample carries no
  flag, yet the residual 5 stays 5 and is not 5 minus the value of the pixel.
\<close>

theorem ast_subtracts_counterexample:
  "0 \<le> GAUSSBG (ex_keymap 0) \<and> smf_create_smfData ex_helpers = SAI__OK \<and>
   the (lut_data ex_sub) ! 0 \<noteq> VAL__BADI \<and>
   the (qua_data ex_sub) ! 0 AND SMF__Q_BADB ex_typ = 0 \<and>
   \<not> ast_masked (smf_get_mask ex_helpers) (nat (the (lut_data ex_sub) ! 0)) \<and>
   the (qua_data ex_sub) ! 0 AND SMF__Q_MOD ex_typ = 0 \<and>
   the (res_data (sdata (fst (smf_calcmodel_ast ex_typ ex_helpers (ex_keymap 0) 0
          (ex_dat [VAL__BADD, 1], SAI__OK))) ! 0)) ! 0 = 5 \<and>
   the (res_data ex_sub) ! 0 -
     map_arr (fst (smf_calcmodel_ast ex_typ ex_helpers (ex_keymap 0) 0
          (ex_dat [VAL__BADD, 1], SAI__OK))) ! nat (the (lut_data ex_sub) ! 0) \<noteq> 5"
  by (simp add: ex_run) (simp add: ex_defs ast_masked_def VAL__BADI_def VAL__BADD_def SAI__OK_def)

text \<open>
  Claim C9. On an invocation whose status stays good, in a well-formed subarray: a sample
  whose LUT entry is valid and whose mapped pixel holds the undefined sentinel keeps its
  residual, whatever its quality flags are and whether or not a mask is in use; and every
  sample's residual after the routine is its residual before, or its residual before
  minus a map value that is not the undefined sentinel. So the undefined sentinel never
  enters a residual.
\<close>

theorem ast_bad_value_kept_out:
  assumes "0 \<le> GAUSSBG k" and "smf_create_smfData h = SAI__OK"
    and "\<forall>s \<in> set (ast_spikes c h k flags SAI__OK dat). ast_wf (msize dat) s"
    and "idx < length (sdata dat)"
    and "ast_spikes c h k flags SAI__OK dat ! idx = s"
    and "res_data s = Some res" and "lut_data s = Some lut" and "qua_data s = Some qua"
    and "smf_calcmodel_ast c h k flags (dat, SAI__OK) = (dat', status')"
  shows "res_data (sdata dat' ! idx) \<noteq> None \<and>
         (\<forall>ii < length res.
            (lut ! ii \<noteq> VAL__BADI \<and> map_arr dat' ! nat (lut ! ii) = VAL__BADD \<longrightarrow>
               the (res_data (sdata dat' ! idx)) ! ii = res ! ii) \<and>
            (the (res_data (sdata dat' ! idx)) ! ii = res ! ii \<or>
             (\<exists>p < msize dat. map_arr dat' ! p \<noteq> VAL__BADD \<and>
                 the (res_data (sdata dat' ! idx)) ! ii = res ! ii - map_arr dat' ! p)))"
proof -
  have wfs: "ast_wf (msize dat) s"
    using assms(3,4,5) by (metis ast_spikes_length nth_mem)
  then have o: "smf_ordered (dims s)"
    and l: "length lut = nbolo (dims s) * ntslice (dims s)"
           "length res = nbolo (dims s) * ntslice (dims s)"
    and rng: "\<forall>l \<in> set lut. l = VAL__BADI \<or> (0 \<le> l \<and> nat l < msize dat)"
    using assms(6,7,8) by (simp_all add: ast_wf_def)
  have r: "res_data (sdata dat' ! idx) =
             Some (ast_bolos c (smf_get_mask h) (map_arr dat') lut qua (dims s) res)"
    by (rule smf_calcmodel_ast_res [OF assms(1-8) assms(9)])
  let ?r = "ast_bolos c (smf_get_mask h) (map_arr dat') lut qua (dims s) res"
  have "(lut ! ii \<noteq> VAL__BADI \<and> map_arr dat' ! nat (lut ! ii) = VAL__BADD \<longrightarrow> ?r ! ii = res ! ii) \<and>
        (?r ! ii = res ! ii \<or>
         (\<exists>p < msize dat. map_arr dat' ! p \<noteq> VAL__BADD \<and> ?r ! ii = res ! ii - map_arr dat' ! p))"
    if b: "ii < length res" for ii
  proof -
    have c: "?r ! ii = res ! ii \<or> ?r ! ii = ast_sample c (smf_get_mask h) (map_arr dat') lut qua ii res ! ii"
      by (simp add: ast_bolos_nth [OF o])
    have s: "ast_sample c (smf_get_mask h) (map_arr dat') lut qua ii res ! ii =
       (if lut ! ii \<noteq> VAL__BADI \<and> \<not> ast_masked (smf_get_mask h) (nat (lut ! ii)) \<and>
           map_arr dat' ! nat (lut ! ii) \<noteq> VAL__BADD \<and> qua ! ii AND SMF__Q_MOD c = 0
        then res ! ii - map_arr dat' ! nat (lut ! ii) else res ! ii)"
      by (rule ast_sample_nth_self [OF b])
    have m: "lut ! ii \<in> set lut" using b l by simp
    have p: "lut ! ii \<noteq> VAL__BADI \<Longrightarrow> nat (lut ! ii) < msize dat" using rng m by blast
    show ?thesis using c s p by (auto split: if_splits)
  qed
  then show ?thesis unfolding r by simp
qed

theorem ast_bad_value_kept_out_witness:
  "0 \<le> GAUSSBG (ex_keymap 0) \<and> smf_create_smfData ex_helpers = SAI__OK \<and>
   ast_spikes ex_typ ex_helpers (ex_keymap 0) 0 SAI__OK (ex_dat [VAL__BADD, 1]) = [ex_sub] \<and>
   ast_wf (msize (ex_dat [VAL__BADD, 1])) ex_sub \<and>
   0 < length (sdata (ex_dat [VAL__BADD, 1])) \<and>
   res_data ex_sub = Some [5, 7, 2, 4] \<and> lut_data ex_sub = Some [0, 0, 1, 1] \<and>
   qua_data ex_sub = Some [0, 0, 0, 0] \<and>
   1 < length [5, 7, 2, 4 :: real] \<and> [0, 0, 1, 1] ! 1 \<noteq> VAL__BADI \<and>
   map_arr (fst (smf_calcmodel_ast ex_typ ex_helpers (ex_keymap 0) 0
          (ex_dat [VAL__BADD, 1], SAI__OK))) ! nat ([0, 0, 1, 1] ! 1) = VAL__BADD \<and>
   the (res_data (sdata (fst (smf_calcmodel_ast ex_typ ex_helpers (ex_keymap 0) 0
          (ex_dat [VAL__BADD, 1], SAI__OK))) ! 0)) ! 1 = [5, 7, 2, 4] ! 1"
proof -
  have h1: "0 \<le> GAUSSBG (ex_keymap 0)" by (simp add: ex_keymap_def)
  have h2: "smf_create_smfData ex_helpers = SAI__OK" by (simp add: ex_helpers_def)
  have w: "ast_wf (msize (ex_dat [VAL__BADD, 1])) ex_sub" by (simp add: ex_dat_def ex_wf)
  have h3: "\<forall>s \<in> set (ast_spikes ex_typ ex_helpers (ex_keymap 0) 0 SAI__OK (ex_dat [VAL__BADD, 1])).
       ast_wf (msize (ex_dat [VAL__BADD, 1])) s"
    using w by (simp add: ex_spikes)
  have h4: "0 < length (sdata (ex_dat [VAL__BADD, 1]))" by (simp add: ex_dat_def)
  have h5: "ast_spikes ex_typ ex_helpers (ex_keymap 0) 0 SAI__OK (ex_dat [VAL__BADD, 1]) ! 0 = ex_sub"
    by (simp add: ex_spikes)
  have h6: "res_data ex_sub = Some [5, 7, 2, 4]" and h7: "lut_data ex_sub = Some [0, 0, 1, 1]"
    and h8: "qua_data ex_sub = Some [0, 0, 0, 0]"
    by (simp_all add: ex_sub_def)
  have h9: "smf_calcmodel_ast ex_typ ex_helpers (ex_keymap 0) 0 (ex_dat [VAL__BADD, 1], SAI__OK) =
      (fst (smf_calcmodel_ast ex_typ ex_helpers (ex_keymap 0) 0 (ex_dat [VAL__BADD, 1], SAI__OK)),
       snd (smf_calcmodel_ast ex_typ ex_helpers (ex_keymap 0) 0 (ex_dat [VAL__BADD, 1], SAI__OK)))"
    by simp
  have b: "1 < length [5, 7, 2, 4 :: real]" by simp
  have v: "[0, 0, 1, 1] ! 1 \<noteq> VAL__BADI" by (simp add: VAL__BADI_def)
  have m: "map_arr (fst (smf_calcmodel_ast ex_typ ex_helpers (ex_keymap 0) 0
          (ex_dat [VAL__BADD, 1], SAI__OK))) ! nat ([0, 0, 1, 1] ! 1) = VAL__BADD"
    unfolding ex_run by (simp add: ex_dat_def)
  from ast_bad_value_kept_out [OF h1 h2 h3 h4 h5 h6 h7 h8 h9] b v m
  have "the (res_data (sdata (fst (smf_calcmodel_ast ex_typ ex_helpers (ex_keymap 0) 0
          (ex_dat [VAL__BADD, 1], SAI__OK))) ! 0)) ! 1 = [5, 7, 2, 4] ! 1"
    by blast
  then show ?thesis using h1 h2 w h4 h6 h7 h8 b v m by (simp add: ex_spikes)
qed

section \<open>The astronomical-signal component: map, quality and status\<close>

lemma ast_zero_mask_nth:
  assumes "i < length mq"
  shows "ast_zero_mask c (Some z) n mp mv mq ! i =
     (if i < n then
        (if mp ! i = VAL__BADD \<or> mv ! i = VAL__BADD \<or> mv ! i \<le> 0 \<or> z ! i \<noteq> 0
         then (mq ! i AND NOT (SMF__MAPQ_ZERO c)) OR SMF__MAPQ_ZERO c
         else mq ! i AND NOT (SMF__MAPQ_ZERO c))
      else mq ! i)"
proof -
  have r: "ast_reset_zero c n mq ! i = (if i < n then mq ! i AND NOT (SMF__MAPQ_ZERO c) else mq ! i)"
    unfolding ast_reset_zero_def using assms
    by (simp add: fold_update_nth [where f = "\<lambda>i x. x AND NOT (SMF__MAPQ_ZERO c)"])
  have l: "length (ast_reset_zero c n mq) = length mq"
    unfolding ast_reset_zero_def
    by (rule fold_update_length [where f = "\<lambda>i x. x AND NOT (SMF__MAPQ_ZERO c)"])
  show ?thesis
    unfolding ast_zero_mask_def option.case ast_flag_zero_update
    using assms
    by (simp add: fold_update_nth [where f = "\<lambda>i x. if mp ! i = VAL__BADD \<or> mv ! i = VAL__BADD \<or> mv ! i \<le> 0 \<or> z ! i \<noteq> 0
                          then x OR SMF__MAPQ_ZERO c else x"] r l)
qed











text \<open>
  A negative \<^verbatim>\<open>AST.GAUSSBG\<close>: entered with a good status, whatever the iteration flags are,
  the routine returns the error status \<open>SAI__ERROR\<close> and leaves the residuals, the map and the
  map quality as they were.
\<close>

lemma smf_calcmodel_ast_negative:
  assumes "GAUSSBG k < 0"
  shows "smf_calcmodel_ast c h k flags (dat, SAI__OK) = (dat, SAI__ERROR)"
proof -
  have p: "ast_parse k SAI__OK = SAI__ERROR" using assms by (simp add: ast_parse_def)
  have f: "ast_filter c h (GAUSSBG k) 0 flags (msize dat) SAI__ERROR (map_arr dat) =
             (SAI__ERROR, map_arr dat)"
    by (simp add: ast_filter_def SAI__ERROR_bad Let_def)
  have s: "ast_spikes c h k flags SAI__ERROR dat = sdata dat"
    by (simp add: ast_spikes_def SAI__ERROR_bad)
  let ?z = "\<lparr>nbolo = 0, ntslice = 0, bstride = 0, tstride = 0\<rparr>"
  have b: "snd (ast_subarrays c None (map_arr dat) (SAI__ERROR, ?z) (sdata dat)) = sdata dat"
    by (rule conjunct1 [OF ast_subarrays_bad [OF SAI__ERROR_bad]]) simp
  have e: "fst (fst (ast_subarrays c None (map_arr dat) (SAI__ERROR, ?z) (sdata dat))) = SAI__ERROR"
    by (rule ast_subarrays_error) simp
  show ?thesis
    unfolding smf_calcmodel_ast_def
    by (simp add: p f s b e SAI__ERROR_bad Let_def split_beta ast_zero_mask_def)
qed

text \<open>
  Claim C3, amended. On an invocation whose status stays good and for which
  \<^verbatim>\<open>smf_get_mask\<close> returns a mask, the bit \<open>SMF__MAPQ_ZERO\<close> of every map pixel is recomputed:
  after the routine it is set if and only if the value of the pixel is undefined, or its
  variance is undefined or not positive, or the mask marks the pixel; the other quality
  bits keep their values. When no mask is returned the quality array is left as it was.
\<close>

theorem ast_zero_bit:
  assumes "0 \<le> GAUSSBG k" and "smf_create_smfData h = SAI__OK"
    and "msize dat \<le> length (mapqual dat)"
    and "smf_calcmodel_ast c h k flags (dat, SAI__OK) = (dat', status')"
  shows "case smf_get_mask h of
           None \<Rightarrow> mapqual dat' = mapqual dat
         | Some z \<Rightarrow>
             (\<forall>i < msize dat.
                mapqual dat' ! i AND SMF__MAPQ_ZERO c =
                  (if map_arr dat' ! i = VAL__BADD \<or> mapvar dat ! i = VAL__BADD \<or>
                      mapvar dat ! i \<le> 0 \<or> z ! i \<noteq> 0
                   then SMF__MAPQ_ZERO c else 0) \<and>
                mapqual dat' ! i AND NOT (SMF__MAPQ_ZERO c) =
                  mapqual dat ! i AND NOT (SMF__MAPQ_ZERO c))"
proof -
  let ?mp = "snd (ast_filter c h (GAUSSBG k) (ZERO_NOTLAST k) flags (msize dat) SAI__OK (map_arr dat))"
  from assms(4) have m: "map_arr dat' = ?mp"
    and q: "mapqual dat' = ast_zero_mask c (smf_get_mask h) (msize dat) ?mp (mapvar dat) (mapqual dat)"
    unfolding smf_calcmodel_ast_good [OF assms(1,2)] by auto
  show ?thesis
  proof (cases "smf_get_mask h")
    case None
    then show ?thesis using q by (simp add: ast_zero_mask_def)
  next
    case (Some z)
    have "mapqual dat' ! i AND SMF__MAPQ_ZERO c =
                  (if map_arr dat' ! i = VAL__BADD \<or> mapvar dat ! i = VAL__BADD \<or>
                      mapvar dat ! i \<le> 0 \<or> z ! i \<noteq> 0
                   then SMF__MAPQ_ZERO c else 0) \<and>
          mapqual dat' ! i AND NOT (SMF__MAPQ_ZERO c) =
                  mapqual dat ! i AND NOT (SMF__MAPQ_ZERO c)"
      if "i < msize dat" for i
    proof -
      have l: "i < length (mapqual dat)" using that assms(3) by simp
      show ?thesis
        unfolding q Some ast_zero_mask_nth [OF l] m
        using that
        by (simp add: word_zero_bit_set word_zero_bit_clear word_zero_bit_rest_set
            word_zero_bit_rest_clear)
    qed
    then show ?thesis using Some by simp
  qed
qed

theorem ast_zero_bit_witness:
  "0 \<le> GAUSSBG (ex_keymap 0) \<and> smf_create_smfData (ex_helpers\<lparr>smf_get_mask := Some [0, 1]\<rparr>) = SAI__OK \<and>
   msize (ex_dat [3, 1]) \<le> length (mapqual (ex_dat [3, 1])) \<and>
   1 < msize (ex_dat [3, 1]) \<and>
   mapqual (fst (smf_calcmodel_ast ex_typ (ex_helpers\<lparr>smf_get_mask := Some [0, 1]\<rparr>)
       (ex_keymap 0) 0 (ex_dat [3, 1], SAI__OK))) ! 1 AND SMF__MAPQ_ZERO ex_typ =
     SMF__MAPQ_ZERO ex_typ"
proof -
  have h1: "0 \<le> GAUSSBG (ex_keymap 0)" by (simp add: ex_keymap_def)
  have h2: "smf_create_smfData (ex_helpers\<lparr>smf_get_mask := Some [0, 1]\<rparr>) = SAI__OK"
    by (simp add: ex_helpers_def)
  have h3: "msize (ex_dat [3, 1]) \<le> length (mapqual (ex_dat [3, 1]))" by (simp add: ex_dat_def)
  have h4: "smf_calcmodel_ast ex_typ (ex_helpers\<lparr>smf_get_mask := Some [0, 1]\<rparr>)
       (ex_keymap 0) 0 (ex_dat [3, 1], SAI__OK) =
     (fst (smf_calcmodel_ast ex_typ (ex_helpers\<lparr>smf_get_mask := Some [0, 1]\<rparr>)
       (ex_keymap 0) 0 (ex_dat [3, 1], SAI__OK)),
      snd (smf_calcmodel_ast ex_typ (ex_helpers\<lparr>smf_get_mask := Some [0, 1]\<rparr>)
       (ex_keymap 0) 0 (ex_dat [3, 1], SAI__OK)))"
    by simp
  have b: "1 < msize (ex_dat [3, 1])" by (simp add: ex_dat_def)
  have "mapqual (fst (smf_calcmodel_ast ex_typ (ex_helpers\<lparr>smf_get_mask := Some [0, 1]\<rparr>)
       (ex_keymap 0) 0 (ex_dat [3, 1], SAI__OK))) ! 1 AND SMF__MAPQ_ZERO ex_typ =
     SMF__MAPQ_ZERO ex_typ"
    using ast_zero_bit [OF h1 h2 h3 h4] b by simp
  then show ?thesis using h1 h2 h3 b by simp
qed

text \<open>
  The claim as stated fails on an invocation for which no mask is returned: the value of
  pixel 0 is undefined, yet its \<open>SMF__MAPQ_ZERO\<close> bit is not set.
\<close>

theorem ast_zero_bit_counterexample:
  "smf_get_mask ex_helpers = None \<and>
   map_arr (fst (smf_calcmodel_ast ex_typ ex_helpers (ex_keymap 0) 0
       (ex_dat [VAL__BADD, 1], SAI__OK))) ! 0 = VAL__BADD \<and>
   SMF__MAPQ_ZERO ex_typ \<noteq> 0 \<and>
   mapqual (fst (smf_calcmodel_ast ex_typ ex_helpers (ex_keymap 0) 0
       (ex_dat [VAL__BADD, 1], SAI__OK))) ! 0 AND SMF__MAPQ_ZERO ex_typ = 0"
  unfolding ex_run by (simp add: ex_defs)

section \<open>smf_calc_stats\<close>

lemma int_of_dim_t_small: "n < 2 ^ 31 \<Longrightarrow> int_of_dim_t n = int n"
  unfolding int_of_dim_t_def by simp

lemma dim_t_roundtrip:
  assumes "n < 2 ^ 31" "31 \<le> w"
  shows "dim_t_of_int w (int_of_dim_t n) = n"
proof -
  have "(2::nat) ^ 31 \<le> 2 ^ w" using assms(2) by (rule power_increasing) simp
  then have "n < 2 ^ w" using assms(1) by simp
  then have "int n < 2 ^ w" by (metis of_nat_less_iff of_nat_numeral of_nat_power)
  then show ?thesis
    unfolding int_of_dim_t_small [OF assms(1)] dim_t_of_int_def by simp
qed

lemma stats_swap_sym:
  assumes "lo < 2 ^ 31" "hi < 2 ^ 31" "31 \<le> w"
  shows "stats_swap w lo hi = stats_swap w hi lo"
  using assms by (auto simp: stats_swap_def dim_t_roundtrip)

text \<open>
  While both bounds fit into an \<^verbatim>\<open>int\<close> the swap is exact, and the routine returns the same
  for the bounds in either order.
\<close>

lemma smf_calc_stats_sym:
  assumes "lo < 2 ^ 31" "hi < 2 ^ 31" "31 \<le> w"
  shows "smf_calc_stats w h data mode index lo hi r = smf_calc_stats w h data mode index hi lo r"
  unfolding smf_calc_stats_def stats_swap_sym [OF assms] by simp

lemma ex_series_sel:
  "ndims (ex_series n v) = 3" "stats_nmax (ex_series n v) ''b'' = 1"
  "stats_nsamp (ex_series n v) ''b'' = n" "stats_nbol (ex_series n v) = 1"
  "dtype (ex_series n v) = SMF__DOUBLE" "pntr0 (ex_series n v) = Some \<lparr>in_d = replicate n v, in_i = []\<rparr>"
  by (simp_all add: ex_series_def stats_nmax_def stats_nsamp_def stats_nbol_def strncmp1_def)

text \<open>
  Claim C5, amended. Entered with a good status, \<^verbatim>\<open>smf_calc_stats\<close> called with a range that
  resolves to a single point (\<open>lo = hi\<close> after the swap and the whole-range default) sets
  the error status \<open>SAI__ERROR\<close> and returns the bad value as mean and as standard
  deviation.
\<close>

theorem stats_single_point:
  assumes "snd (snd r) = SAI__OK"
    and "stats_whole (stats_nsamp data mode) (stats_swap w lo hi) = (p, p)"
  shows "smf_calc_stats w h data mode index lo hi r = Some (VAL__BADD, VAL__BADD, SAI__ERROR)"
  using assms by (simp add: smf_calc_stats_def)

theorem stats_single_point_witness:
  "snd (snd (0 :: real, 0 :: real, SAI__OK)) = SAI__OK \<and>
   stats_whole (stats_nsamp (ex_series 4 7) ''b'') (stats_swap 64 1 1) = (1, 1) \<and>
   smf_calc_stats 64 ex_stats (ex_series 4 7) ''b'' 0 1 1 (0, 0, SAI__OK) =
     Some (VAL__BADD, VAL__BADD, SAI__ERROR)"
proof -
  have h1: "snd (snd (0 :: real, 0 :: real, SAI__OK)) = SAI__OK" by simp
  have h2: "stats_whole (stats_nsamp (ex_series 4 7) ''b'') (stats_swap 64 1 1) = (1, 1)"
    by (simp add: stats_whole_def stats_swap_def)
  show ?thesis using h1 h2 stats_single_point [OF h1 h2] by simp
qed

text \<open>
  The claim as stated has such a unit skipped without an error status. The range \<open>1..1\<close>
  of a series of four samples, with every other argument valid, leaves the status
  \<open>SAI__ERROR\<close>.
\<close>

theorem stats_single_point_counterexample:
  "ndims (ex_series 4 7) = 3 \<and> strncmp1 ''b'' CHR ''b'' \<and>
   0 < stats_nmax (ex_series 4 7) ''b'' \<and> 1 < stats_nsamp (ex_series 4 7) ''b'' \<and>
   smf_calc_stats 64 ex_stats (ex_series 4 7) ''b'' 0 1 1 (0, 0, SAI__OK) =
     Some (VAL__BADD, VAL__BADD, SAI__ERROR) \<and>
   SAI__ERROR \<noteq> SAI__OK"
  by (simp add: ex_series_sel smf_calc_stats_def stats_whole_def stats_swap_def strncmp1_def
      SAI__ERROR_bad)

lemma ex_kpgStatd_six: "kpgStatd ex_stats 6 [7, 7, 7, 7, 7, 7] = (7, 0, SAI__OK)"
  by (simp add: ex_stats_def ex_mean_def ex_stdev_def)

lemma stats_swap_direct: "stats_swap 64 2147483653 2147483658 = (2147483653, 2147483658)"
  by (simp add: stats_swap_def)

lemma stats_swap_truncated:
  "stats_swap 64 2147483658 2147483653 = (2147483653, 18446744071562067978)"
  by (simp add: stats_swap_def dim_t_of_int_def int_of_dim_t_def)

lemma ex_copy_six:
  "map ((!) (replicate 3000000000 (7 :: real))) [2147483653..<2147483659] = [7, 7, 7, 7, 7, 7]"
  by (simp add: upt_rec_numeral)

text \<open>
  Claim C10 fails where \<^verbatim>\<open>dim_t\<close> has 64 bits and the larger bound does not fit into the
  \<^verbatim>\<open>int\<close> used for the swap. Take a series of 3000000000 samples of value 7 and any
  allocator \<open>m\<close>. With the bounds \<open>(2147483653, 2147483658)\<close> the routine asks for 6
  elements and, given them, returns the mean 7 and the standard deviation 0 of the six
  samples. With the bounds \<open>(2147483658, 2147483653)\<close> the swap leaves
  \<open>(2147483653, 18446744071562067978)\<close> and the routine asks for \<open>2^64 - 2^32 + 6\<close> elements:
  it returns the bad value as mean and standard deviation when the allocation fails, and
  has no defined result (the copy loop leaves the input array) if it does not.
\<close>

theorem stats_bounds_not_symmetric:
  "smf_calc_stats 64 (ex_stats\<lparr>smf_malloc := m\<rparr>) (ex_series 3000000000 7) ''b'' 0
       2147483653 2147483658 (0, 0, SAI__OK) =
     (case m 6 of None \<Rightarrow> Some (7, 0, SAI__OK) | Some st \<Rightarrow> Some (VAL__BADD, VAL__BADD, st)) \<and>
   smf_calc_stats 64 (ex_stats\<lparr>smf_malloc := m\<rparr>) (ex_series 3000000000 7) ''b'' 0
       2147483658 2147483653 (0, 0, SAI__OK) =
     (case m 18446744069414584326 of None \<Rightarrow> None | Some st \<Rightarrow> Some (VAL__BADD, VAL__BADD, st)) \<and>
   7 \<noteq> VAL__BADD"
proof (intro conjI)
  show "smf_calc_stats 64 (ex_stats\<lparr>smf_malloc := m\<rparr>) (ex_series 3000000000 7) ''b'' 0
       2147483653 2147483658 (0, 0, SAI__OK) =
     (case m 6 of None \<Rightarrow> Some (7, 0, SAI__OK) | Some st \<Rightarrow> Some (VAL__BADD, VAL__BADD, st))"
    unfolding smf_calc_stats_def stats_swap_direct stats_compute_def
    by (simp add: ex_series_sel stats_whole_def strncmp1_def int_of_dim_t_def ex_copy_six
        ex_kpgStatd_six split: option.splits del: upt_rec_numeral)
  show "smf_calc_stats 64 (ex_stats\<lparr>smf_malloc := m\<rparr>) (ex_series 3000000000 7) ''b'' 0
       2147483658 2147483653 (0, 0, SAI__OK) =
     (case m 18446744069414584326 of None \<Rightarrow> None | Some st \<Rightarrow> Some (VAL__BADD, VAL__BADD, st))"
    unfolding smf_calc_stats_def stats_swap_truncated stats_compute_def
    by (simp add: ex_series_sel stats_whole_def strncmp1_def split: option.splits
        del: upt_rec_numeral)
  show "7 \<noteq> VAL__BADD" by (simp add: VAL__BADD_def)
qed

section \<open>smurf_makemap: exposure time\<close>

lemma makemap_exp_pixel_fst:
  "fst (makemap_exp_pixel steptime mp hitsmap i em) =
     (fst em)[i := makemap_exp_value steptime mp hitsmap i]"
  by (simp add: makemap_exp_pixel_def makemap_exp_value_def Let_def)

lemma makemap_fold_fst:
  "fst (fold (makemap_exp_pixel steptime mp hitsmap) [0..<n] em) =
     fold (\<lambda>i q. q[i := makemap_exp_value steptime mp hitsmap i]) [0..<n] (fst em)"
  by (induction n) (simp_all add: makemap_exp_pixel_fst)

lemma makemap_exp_time_nth:
  assumes "i < nxy" "nxy \<le> length exp_time"
  shows "fst (makemap_exp_time steptime mp hitsmap nxy SAI__OK (exp_time, m)) ! i =
           makemap_exp_value steptime mp hitsmap i"
  using assms
  by (simp add: makemap_exp_time_def makemap_fold_fst
      fold_update_nth [where f = "\<lambda>i x. makemap_exp_value steptime mp hitsmap i"])

lemma makemap_exp_time_length:
  "length (fst (makemap_exp_time steptime mp hitsmap nxy st (exp_time, m))) = length exp_time"
  by (simp add: makemap_exp_time_def makemap_fold_fst
      fold_update_length [where f = "\<lambda>i x. makemap_exp_value steptime mp hitsmap i"])

lemma makemap_exp_time_take:
  assumes "nxy \<le> length exp_time"
  shows "take nxy (fst (makemap_exp_time steptime mp hitsmap nxy SAI__OK (exp_time, m))) =
           map (makemap_exp_value steptime mp hitsmap) [0..<nxy]"
  by (rule nth_equalityI)
     (simp_all add: makemap_exp_time_length assms makemap_exp_time_nth [OF _ assms])

lemma VAL__BADD_neg: "VAL__BADD < 0"
  by (simp add: VAL__BADD_def)

lemma VAL__BADR_neg: "VAL__BADR < 0"
  by (simp add: VAL__BADR_def)

lemma makemap_valid_filter:
  assumes "0 \<le> steptime"
  shows "filter (\<lambda>v. v \<noteq> VAL__BADD) (map (makemap_exp_value steptime mp hitsmap) xs) =
           map (\<lambda>i. steptime * real (hitsmap ! i)) (filter (\<lambda>i. mp ! i \<noteq> VAL__BADD) xs)"
proof (induction xs)
  case Nil
  then show ?case by simp
next
  case (Cons x xs)
  have "0 \<le> steptime * real (hitsmap ! x)" using assms by simp
  then have "steptime * real (hitsmap ! x) \<noteq> VAL__BADD" using VAL__BADD_neg by linarith
  then show ?case using Cons by (simp add: makemap_exp_value_def)
qed

lemma median_nonneg:
  assumes "vs \<noteq> []" "\<forall>v \<in> set vs. 0 \<le> v"
  shows "0 \<le> median vs"
proof -
  have l: "0 < length vs" using assms(1) by simp
  have "(length vs - 1) div 2 < length vs" using l by arith
  then have a: "sort vs ! ((length vs - 1) div 2) \<in> set (sort vs)"
    by (intro nth_mem) simp
  have b: "sort vs ! (length vs div 2) \<in> set (sort vs)"
    by (rule nth_mem) (use l in simp)
  show ?thesis unfolding median_def using a b assms(2) by (simp add: add_nonneg_nonneg)
qed

text \<open>
  Claim C6. After a successful run of the iterative map-maker, with a non-negative
  integration time per sample: the exposure-time array holds, at every pixel whose map
  value is defined, the hit count of the pixel times the integration time, and the
  undefined sentinel at every other pixel; and the \<^verbatim>\<open>EXP_TIME\<close> card of the FITS header holds
  the median of the exposure times of the valid pixels (no card is written when there is no
  valid pixel).
\<close>

theorem makemap_exposure:
  assumes "status = SAI__OK" and "nxy \<le> length exp_time" and "0 \<le> steptime"
  shows "(\<forall>i < nxy.
            fst (smurf_makemap_exposure steptime mp hitsmap nxy status exp_time) ! i =
              (if mp ! i = VAL__BADD then VAL__BADD else steptime * real (hitsmap ! i))) \<and>
         snd (snd (smurf_makemap_exposure steptime mp hitsmap nxy status exp_time)) =
           (if makemap_valid steptime mp hitsmap nxy = [] then None
            else Some (median (makemap_valid steptime mp hitsmap nxy)))"
proof
  show "\<forall>i < nxy.
            fst (smurf_makemap_exposure steptime mp hitsmap nxy status exp_time) ! i =
              (if mp ! i = VAL__BADD then VAL__BADD else steptime * real (hitsmap ! i))"
    using assms(1,2)
    by (simp add: smurf_makemap_exposure_def Let_def makemap_exp_time_nth
        makemap_exp_value_def [symmetric])
  let ?e = "fst (makemap_exp_time steptime mp hitsmap nxy SAI__OK (exp_time, 0))"
  have f: "filter (\<lambda>v. v \<noteq> VAL__BADD) (take nxy ?e) = makemap_valid steptime mp hitsmap nxy"
    unfolding makemap_exp_time_take [OF assms(2)] makemap_valid_def
    by (rule makemap_valid_filter [OF assms(3)])
  have m: "median (makemap_valid steptime mp hitsmap nxy) \<noteq> VAL__BADR"
    if "makemap_valid steptime mp hitsmap nxy \<noteq> []"
  proof -
    have "\<forall>v \<in> set (makemap_valid steptime mp hitsmap nxy). 0 \<le> v"
      using assms(3) by (auto simp: makemap_valid_def)
    then have "0 \<le> median (makemap_valid steptime mp hitsmap nxy)"
      by (rule median_nonneg [OF that])
    then show ?thesis using VAL__BADR_neg by linarith
  qed
  show "snd (snd (smurf_makemap_exposure steptime mp hitsmap nxy status exp_time)) =
           (if makemap_valid steptime mp hitsmap nxy = [] then None
            else Some (median (makemap_valid steptime mp hitsmap nxy)))"
    using assms(1) m
    by (simp add: smurf_makemap_exposure_def Let_def makemap_exp_card_def makemap_medtexp_def
        smf_find_median_def f)
qed

theorem makemap_exposure_witness:
  "SAI__OK = SAI__OK \<and> (3 :: nat) \<le> length [0, 0, 0 :: real] \<and> (0 :: real) \<le> 1 / 200 \<and>
   fst (smurf_makemap_exposure (1 / 200) [1, VAL__BADD, 2] [4, 0, 2] 3 SAI__OK [0, 0, 0]) ! 0
     = 1 / 50 \<and>
   fst (smurf_makemap_exposure (1 / 200) [1, VAL__BADD, 2] [4, 0, 2] 3 SAI__OK [0, 0, 0]) ! 1
     = VAL__BADD \<and>
   snd (snd (smurf_makemap_exposure (1 / 200) [1, VAL__BADD, 2] [4, 0, 2] 3 SAI__OK [0, 0, 0]))
     = Some (3 / 200)"
proof -
  have h1: "SAI__OK = SAI__OK" by simp
  have h2: "(3 :: nat) \<le> length [0, 0, 0 :: real]" by simp
  have h3: "(0 :: real) \<le> 1 / 200" by simp
  have v: "makemap_valid (1 / 200) [1, VAL__BADD, 2] [4, 0, 2] 3 = [1 / 50, 1 / 100]"
    by (simp add: makemap_valid_def VAL__BADD_def numeral_eq_Suc)
  have md: "median [1 / 50, 1 / 100] = 3 / 200"
    by (simp add: median_def numeral_eq_Suc)
  note t = makemap_exposure [OF h1 h2 h3, of "[1, VAL__BADD, 2]" "[4, 0, 2]"]
  have c1: "fst (smurf_makemap_exposure (1 / 200) [1, VAL__BADD, 2] [4, 0, 2] 3 SAI__OK [0, 0, 0]) ! 0
     = 1 / 50"
    using t by (simp add: VAL__BADD_def)
  have c2: "fst (smurf_makemap_exposure (1 / 200) [1, VAL__BADD, 2] [4, 0, 2] 3 SAI__OK [0, 0, 0]) ! 1
     = VAL__BADD"
    using t by simp
  have c3: "snd (snd (smurf_makemap_exposure (1 / 200) [1, VAL__BADD, 2] [4, 0, 2] 3 SAI__OK [0, 0, 0]))
     = Some (3 / 200)"
    using t unfolding v md by simp
  show ?thesis using h2 c1 c2 c3 by simp
qed

end
